theory Spec2Isabelle
  imports Main
begin

section \<open>Data model of the package loader\<close>

text \<open>
  The development embeds \<^verbatim>\<open>src/kpackage/packageloader.cpp\<close>. Qt and KCoreAddons
  classes the file only uses (QFile, QJsonDocument, QDirIterator, KPluginLoader,
  KPluginFactory, KPluginMetaData) are not part of the sources; what they return is
  taken from an environment record, and every call into them is written to a trace.
\<close>

type_synonym QString = string

type_synonym addr = nat

text \<open>
  KPluginMetaData, reduced to the accessors the loader calls: \<^verbatim>\<open>fileName()\<close>,
  \<^verbatim>\<open>metaDataFileName()\<close>, \<^verbatim>\<open>pluginId()\<close>, \<^verbatim>\<open>serviceTypes()\<close>, \<^verbatim>\<open>isValid()\<close>.
\<close>

record KPluginMetaData =
  fileName :: QString
  metaDataFileName :: QString
  pluginId :: QString
  serviceTypes :: "QString list"
  isValid :: bool

text \<open>
  One object of the array stored in an index file. \<open>FileName\<close> is
  \<^verbatim>\<open>obj.value("FileName").toString()\<close> (empty when the key is absent); the other three
  fields are what KPluginMetaData reports for a metadata object built from it, taken
  here not to depend on the file names given to the constructor.
\<close>

record QJsonObject =
  FileName :: QString
  json_pluginId :: QString
  json_serviceTypes :: "QString list"
  json_isValid :: bool

text \<open>The constructor \<^verbatim>\<open>KPluginMetaData(obj, file, metaDataFile)\<close>.\<close>

definition KPluginMetaData_json :: "QJsonObject \<Rightarrow> QString \<Rightarrow> QString \<Rightarrow> KPluginMetaData" where
  "KPluginMetaData_json obj file metaDataFile =
     \<lparr>fileName = file, metaDataFileName = metaDataFile, pluginId = json_pluginId obj,
      serviceTypes = json_serviceTypes obj, isValid = json_isValid obj\<rparr>"

text \<open>
  A PackageStructure object on the heap: where it came from, and the default package
  root it declares to a Package built on it.
\<close>

datatype Origin = GenericPackage | FromModule QString

record PackageStructure =
  origin :: Origin
  declaredRoot :: QString

text \<open>
  What loading a module file and asking its factory gives: \<^verbatim>\<open>loader.factory()\<close> is null
  (the file does not load, or it exports no factory), or
  \<^verbatim>\<open>factory->create<PackageStructure>\<close> returns null, or it returns a new object.
\<close>

datatype Module = NotLoadable | NoFactory | CreateFails | Creates QString

text \<open>The calls that leave the loader, in the order they are made.\<close>

datatype Event =
    FileExists QString
  | IndexRead QString
  | FindPlugins QString
  | DirScan QString
  | ModuleLoad QString
  | HookCall QString
  | Warning QString

text \<open>
  The environment a call runs in: \<^verbatim>\<open>QCoreApplication::libraryPaths()\<close>,
  \<^verbatim>\<open>QStandardPaths::standardLocations(GenericDataLocation)\<close>, the files that exist,
  the decoded array of an index file, the result of \<^verbatim>\<open>KPluginLoader::findPlugins\<close> on a
  directory, the KPluginMetaData of each \<^verbatim>\<open>metadata.desktop\<close> found by the recursive
  QDirIterator below a directory, the module table, and the default package root of the
  built-in GenericPackage (declared in \<^verbatim>\<open>private/packages_p.h\<close>).
\<close>

record Env =
  libraryPaths :: "QString list"
  standardLocations :: "QString list"
  exists :: "QString \<Rightarrow> bool"
  indexContent :: "QString \<Rightarrow> QJsonObject list"
  findPlugins :: "QString \<Rightarrow> KPluginMetaData list"
  metadataFiles :: "QString \<Rightarrow> KPluginMetaData list"
  module :: "QString \<Rightarrow> Module"
  genericRoot :: QString

text \<open>
  The mutable world: the heap of PackageStructure objects (an address leaves the heap
  when its object is deleted), the next free address, and the trace.
\<close>

record World =
  heap :: "addr \<rightharpoonup> PackageStructure"
  nextAddr :: addr
  trace :: "Event list"

definition alloc :: "PackageStructure \<Rightarrow> World \<Rightarrow> addr \<times> World" where
  "alloc obj w = (nextAddr w, w\<lparr>heap := (heap w)(nextAddr w \<mapsto> obj), nextAddr := Suc (nextAddr w)\<rparr>)"

definition emit :: "Event list \<Rightarrow> World \<Rightarrow> World" where
  "emit es w = w\<lparr>trace := trace w @ es\<rparr>"

text \<open>
  Modelled from the spec: the class Package (\<^verbatim>\<open>package.h\<close>, \<^verbatim>\<open>package.cpp\<close>) is missing
  from the sources. The spec describes it as a lightweight value wrapping a structure
  handler reference plus an optional path; it is valid when it has a handler.
\<close>

record Package =
  structurePtr :: "addr option"
  path :: QString

definition Package_default :: Package where
  "Package_default = \<lparr>structurePtr = None, path = []\<rparr>"

definition Package_of :: "addr \<Rightarrow> Package" where
  "Package_of a = \<lparr>structurePtr = Some a, path = []\<rparr>"

definition hasValidStructure :: "Package \<Rightarrow> bool" where
  "hasValidStructure p = (structurePtr p \<noteq> None)"

definition setPath :: "QString \<Rightarrow> Package \<Rightarrow> Package" where
  "setPath pth p = p\<lparr>path := pth\<rparr>"

definition defaultPackageRoot :: "World \<Rightarrow> Package \<Rightarrow> QString" where
  "defaultPackageRoot w p =
     (case structurePtr p of
        None \<Rightarrow> []
      | Some a \<Rightarrow> (case heap w a of None \<Rightarrow> [] | Some obj \<Rightarrow> declaredRoot obj))"

text \<open>
  PackageLoader with its private part: the cache \<^verbatim>\<open>structures\<close> (a QHash of QPointer;
  a stored pointer may be null), the flag \<^verbatim>\<open>isDefaultLoader\<close>, and the virtual method
  \<^verbatim>\<open>internalLoadPackage\<close> as the function a subclass supplies.
\<close>

record PackageLoader =
  structures :: "QString \<rightharpoonup> addr option"
  isDefaultLoader :: bool
  internalLoadPackage :: "QString \<Rightarrow> Package"

text \<open>The base class implementation of the hook returns \<^verbatim>\<open>Package()\<close>.\<close>

definition internalLoadPackage_base :: "QString \<Rightarrow> Package" where
  "internalLoadPackage_base name = Package_default"

text \<open>The constructor: \<^verbatim>\<open>isDefaultLoader(false)\<close>, an empty cache.\<close>

definition PackageLoader_new :: PackageLoader where
  "PackageLoader_new =
     \<lparr>structures = Map.empty, isDefaultLoader = False,
      internalLoadPackage = internalLoadPackage_base\<rparr>"

text \<open>
  \<^verbatim>\<open>d->structures.value(packageFormat).data()\<close>: null when the key is absent, when the
  stored pointer is null, and when the object it pointed to has been deleted.
\<close>

definition cached :: "PackageLoader \<Rightarrow> World \<Rightarrow> QString \<Rightarrow> addr option" where
  "cached L w packageFormat =
     (case structures L packageFormat of
        None \<Rightarrow> None
      | Some None \<Rightarrow> None
      | Some (Some a) \<Rightarrow> (if heap w a = None then None else Some a))"

section \<open>The singleton\<close>

text \<open>
  \<^verbatim>\<open>s_packageTrader\<close> with the loader objects it may point to. A loader pointer is
  \<open>None\<close> when null.
\<close>

record Globals =
  s_packageTrader :: "addr option"
  loaders :: "addr \<rightharpoonup> PackageLoader"
  nextLoader :: addr

definition setPackageLoader :: "addr option \<Rightarrow> Globals \<Rightarrow> Globals" where
  "setPackageLoader loader g =
     (if s_packageTrader g = None then g\<lparr>s_packageTrader := loader\<rparr> else g)"

definition self :: "Globals \<Rightarrow> addr option \<times> Globals" where
  "self g =
     (if s_packageTrader g = None
      then (Some (nextLoader g),
            g\<lparr>s_packageTrader := Some (nextLoader g),
              loaders := (loaders g)(nextLoader g \<mapsto> PackageLoader_new\<lparr>isDefaultLoader := True\<rparr>),
              nextLoader := Suc (nextLoader g)\<rparr>)
      else (s_packageTrader g, g))"

section \<open>loadPackageStructure\<close>

definition genericFormat :: QString where
  "genericFormat = ''KPackage/Generic''"

definition subDirectory :: QString where
  "subDirectory = ''kpackage/packagestructure''"

definition kpluginindex :: QString where
  "kpluginindex = ''kpluginindex.json''"

text \<open>\<^verbatim>\<open>QDir::separator()\<close> on the platforms where it is the slash.\<close>

definition separator :: char where
  "separator = CHR ''/''"

definition endsWith :: "QString \<Rightarrow> char \<Rightarrow> bool" where
  "endsWith s c = (s \<noteq> [] \<and> last s = c)"

text \<open>Lines 280 to 286: one candidate directory for each library path.\<close>

definition libraryDir :: "QString \<Rightarrow> QString" where
  "libraryDir dir =
     (let d = dir @ [separator] @ subDirectory
      in if \<not> endsWith d separator then d @ [separator] else d)"

text \<open>
  The inner loop over the records of an index (lines 302 to 310): the first record
  whose plugin id is the format gives its \<open>FileName\<close>, and the loop breaks.
\<close>

fun matchIndex :: "QString \<Rightarrow> QJsonObject list \<Rightarrow> QString option" where
  "matchIndex packageFormat [] = None"
| "matchIndex packageFormat (obj # rest) =
     (let candidate = FileName obj;
          m = KPluginMetaData_json obj candidate []
      in if pluginId m = packageFormat then Some candidate
         else matchIndex packageFormat rest)"

text \<open>The inner loop over the result of findPlugins (lines 314 to 320).\<close>

fun matchPlugins :: "QString \<Rightarrow> KPluginMetaData list \<Rightarrow> QString option" where
  "matchPlugins packageFormat [] = None"
| "matchPlugins packageFormat (md # rest) =
     (if pluginId md = packageFormat then Some (fileName md)
      else matchPlugins packageFormat rest)"

text \<open>
  The body of the outer loop (lines 292 to 321) for one directory. The state is
  \<^verbatim>\<open>pluginFileName\<close> and the trace; a directory without a match leaves
  \<^verbatim>\<open>pluginFileName\<close> as it was.
\<close>

definition probeLibraryDir ::
  "Env \<Rightarrow> QString \<Rightarrow> QString \<Rightarrow> QString \<times> Event list \<Rightarrow> QString \<times> Event list" where
  "probeLibraryDir env packageFormat plugindir st =
     (let ixfile = plugindir @ kpluginindex
      in if exists env ixfile
         then (case matchIndex packageFormat (indexContent env ixfile) of
                 Some candidate \<Rightarrow> candidate
               | None \<Rightarrow> fst st,
               snd st @ [FileExists ixfile, IndexRead ixfile])
         else (case matchPlugins packageFormat (findPlugins env plugindir) of
                 Some file \<Rightarrow> file
               | None \<Rightarrow> fst st,
               snd st @ [FileExists ixfile, FindPlugins plugindir]))"

text \<open>The outer loop (line 291): every directory, in order.\<close>

fun discover ::
  "Env \<Rightarrow> QString \<Rightarrow> QString list \<Rightarrow> QString \<times> Event list \<Rightarrow> QString \<times> Event list" where
  "discover env packageFormat [] st = st"
| "discover env packageFormat (plugindir # rest) st =
     discover env packageFormat rest (probeLibraryDir env packageFormat plugindir st)"

text \<open>
  Lines 324 to 335. With a factory, \<^verbatim>\<open>structure\<close> is overwritten by what the factory
  creates (a new object, or null with an error text); without one it is left alone.
\<close>

definition noService :: QString where
  "noService = ''No service matching the requirements was found''"

definition instantiate ::
  "Env \<Rightarrow> QString \<Rightarrow> addr option \<Rightarrow> World \<Rightarrow> addr option \<times> QString \<times> World" where
  "instantiate env pluginFileName structure0 w =
     (if pluginFileName \<noteq> []
      then (let w1 = emit [ModuleLoad pluginFileName] w
            in case module env pluginFileName of
                 Creates root \<Rightarrow>
                   (let (a, w2) = alloc \<lparr>origin = FromModule pluginFileName, declaredRoot = root\<rparr> w1
                    in (Some a, [], w2))
               | CreateFails \<Rightarrow> (None, noService, w1)
               | NoFactory \<Rightarrow> (structure0, [], w1)
               | NotLoadable \<Rightarrow> (structure0, [], w1))
      else (structure0, [], w))"

text \<open>Lines 269 to 274: the cache lookup and the built-in generic structure.\<close>

definition cachedOrGeneric ::
  "Env \<Rightarrow> QString \<Rightarrow> PackageLoader \<Rightarrow> World \<Rightarrow> addr option \<times> World" where
  "cachedOrGeneric env packageFormat L w =
     (case cached L w packageFormat of
        Some a \<Rightarrow> (Some a, w)
      | None \<Rightarrow>
          (if packageFormat = genericFormat
           then (let (a, w1) = alloc \<lparr>origin = GenericPackage, declaredRoot = genericRoot env\<rparr> w
                 in (Some a, w1))
           else (None, w)))"

definition loadPackageStructure ::
  "Env \<Rightarrow> QString \<Rightarrow> PackageLoader \<times> World \<Rightarrow> addr option \<times> PackageLoader \<times> World" where
  "loadPackageStructure env packageFormat s =
     (let L = fst s;
          (structure0, w1) = cachedOrGeneric env packageFormat L (snd s);
          dirs = map libraryDir (libraryPaths env);
          (pluginFileName, tr) = discover env packageFormat dirs ([], trace w1);
          (structure1, error, w2) = instantiate env pluginFileName structure0 (w1\<lparr>trace := tr\<rparr>);
          w3 = (if structure1 \<noteq> None \<and> error \<noteq> [] then emit [Warning error] w2 else w2)
      in (structure1, L\<lparr>structures := (structures L)(packageFormat \<mapsto> structure1)\<rparr>, w3))"

section \<open>loadPackage\<close>

text \<open>Lines 163 to 181: the standard mechanism, after the hook.\<close>

definition loadPackage_standard ::
  "Env \<Rightarrow> QString \<Rightarrow> QString \<Rightarrow> PackageLoader \<times> World \<Rightarrow> Package \<times> PackageLoader \<times> World" where
  "loadPackage_standard env packageFormat packagePath s =
     (if packageFormat = [] then (Package_default, fst s, snd s)
      else (let (structure1, L1, w1) = loadPackageStructure env packageFormat s
            in case structure1 of
                 Some a \<Rightarrow>
                   (let p = Package_of a
                    in (if packagePath \<noteq> [] then setPath packagePath p else p, L1, w1))
               | None \<Rightarrow> (Package_default, L1, w1)))"

text \<open>Lines 153 to 161, then the standard mechanism.\<close>

definition loadPackage ::
  "Env \<Rightarrow> QString \<Rightarrow> QString \<Rightarrow> PackageLoader \<times> World \<Rightarrow> Package \<times> PackageLoader \<times> World" where
  "loadPackage env packageFormat packagePath s =
     (if \<not> isDefaultLoader (fst s)
      then (let p = internalLoadPackage (fst s) packageFormat;
                w0 = emit [HookCall packageFormat] (snd s)
            in if hasValidStructure p
               then (if packagePath \<noteq> [] then setPath packagePath p else p, fst s, w0)
               else loadPackage_standard env packageFormat packagePath (fst s, w0))
      else loadPackage_standard env packageFormat packagePath s)"

section \<open>listPackages\<close>

text \<open>
  Lines 192 to 210, entered when no root was given: the structure from the cache, the
  built-in one, or loadPackageStructure; a structure found is stored in the cache and
  its declared root is read through a Package.
\<close>

definition rootFromStructure ::
  "Env \<Rightarrow> QString \<Rightarrow> PackageLoader \<times> World \<Rightarrow> QString \<times> PackageLoader \<times> World" where
  "rootFromStructure env packageFormat s =
     (let (structure0, w1) = cachedOrGeneric env packageFormat (fst s) (snd s);
          (structure1, L1, w2) =
             (if structure0 = None then loadPackageStructure env packageFormat (fst s, w1)
              else (structure0, fst s, w1))
      in case structure1 of
           Some a \<Rightarrow>
             (defaultPackageRoot w2 (Package_of a),
              L1\<lparr>structures := (structures L1)(packageFormat \<mapsto> Some a)\<rparr>, w2)
         | None \<Rightarrow> ([], L1, w2))"

text \<open>Lines 189 to 214: the root the data locations are joined with.\<close>

definition resolveRoot ::
  "Env \<Rightarrow> QString \<Rightarrow> QString \<Rightarrow> PackageLoader \<times> World \<Rightarrow> QString \<times> PackageLoader \<times> World" where
  "resolveRoot env packageFormat packageRoot s =
     (let (actualRoot, L1, w1) =
             (if packageRoot = [] then rootFromStructure env packageFormat s
              else (packageRoot, fst s, snd s))
      in (if actualRoot = [] then packageFormat else actualRoot, L1, w1))"

text \<open>The loop over the records of an index (lines 231 to 238).\<close>

fun listIndex :: "QJsonObject list \<Rightarrow> KPluginMetaData list" where
  "listIndex [] = []"
| "listIndex (obj # rest) =
     (let pluginFileName = FileName obj;
          m = KPluginMetaData_json obj [] pluginFileName
      in if isValid m then m # listIndex rest else listIndex rest)"

text \<open>The loop over the descriptor files of a directory tree (lines 247 to 260).\<close>

fun listScan :: "QString \<Rightarrow> KPluginMetaData list \<Rightarrow> KPluginMetaData list" where
  "listScan packageFormat [] = []"
| "listScan packageFormat (info # rest) =
     (if \<not> isValid info then listScan packageFormat rest
      else if packageFormat = [] \<or> packageFormat \<in> set (serviceTypes info)
           then info # listScan packageFormat rest
           else listScan packageFormat rest)"

text \<open>Line 218: the data location, a slash, the root.\<close>

definition dataDir :: "QString \<Rightarrow> QString \<Rightarrow> QString" where
  "dataDir actualRoot datadir = datadir @ [CHR ''/''] @ actualRoot"

text \<open>The body of the loop over the data locations (lines 218 to 261).\<close>

definition probeDataDir ::
  "Env \<Rightarrow> QString \<Rightarrow> QString \<Rightarrow> QString \<Rightarrow>
   KPluginMetaData list \<times> Event list \<Rightarrow> KPluginMetaData list \<times> Event list" where
  "probeDataDir env packageFormat actualRoot datadir st =
     (let plugindir = dataDir actualRoot datadir;
          ixfile = plugindir @ kpluginindex
      in if exists env ixfile
         then (fst st @ listIndex (indexContent env ixfile),
               snd st @ [FileExists ixfile, IndexRead ixfile])
         else (fst st @ listScan packageFormat (metadataFiles env plugindir),
               snd st @ [FileExists ixfile, DirScan plugindir]))"

fun listLocations ::
  "Env \<Rightarrow> QString \<Rightarrow> QString \<Rightarrow> QString list \<Rightarrow>
   KPluginMetaData list \<times> Event list \<Rightarrow> KPluginMetaData list \<times> Event list" where
  "listLocations env packageFormat actualRoot [] st = st"
| "listLocations env packageFormat actualRoot (datadir # rest) st =
     listLocations env packageFormat actualRoot rest
       (probeDataDir env packageFormat actualRoot datadir st)"

definition listPackages ::
  "Env \<Rightarrow> QString \<Rightarrow> QString \<Rightarrow> PackageLoader \<times> World \<Rightarrow>
   KPluginMetaData list \<times> PackageLoader \<times> World" where
  "listPackages env packageFormat packageRoot s =
     (let (actualRoot, L1, w1) = resolveRoot env packageFormat packageRoot s;
          (lst, tr) = listLocations env packageFormat actualRoot (standardLocations env)
                        ([], trace w1)
      in (lst, L1, w1\<lparr>trace := tr\<rparr>))"

section \<open>Notions used to state the properties\<close>

text \<open>
  What one candidate directory contributes to \<^verbatim>\<open>pluginFileName\<close>: the two branches of
  lines 294 to 321, without the state.
\<close>

definition dirMatch :: "Env \<Rightarrow> QString \<Rightarrow> QString \<Rightarrow> QString option" where
  "dirMatch env packageFormat plugindir =
     (if exists env (plugindir @ kpluginindex)
      then matchIndex packageFormat (indexContent env (plugindir @ kpluginindex))
      else matchPlugins packageFormat (findPlugins env plugindir))"

text \<open>
  The records of one candidate directory in the order the loops read them, each as its
  plugin id and its module path: the objects of the index where the index file exists,
  the result of findPlugins where it does not.
\<close>

definition dirCandidates :: "Env \<Rightarrow> QString \<Rightarrow> (QString \<times> QString) list" where
  "dirCandidates env plugindir =
     (if exists env (plugindir @ kpluginindex)
      then map (\<lambda>obj. (json_pluginId obj, FileName obj))
             (indexContent env (plugindir @ kpluginindex))
      else map (\<lambda>md. (pluginId md, fileName md)) (findPlugins env plugindir))"

text \<open>The calls made while one candidate directory is probed.\<close>

definition probeEvents :: "Env \<Rightarrow> QString \<Rightarrow> Event list" where
  "probeEvents env plugindir =
     (if exists env (plugindir @ kpluginindex)
      then [FileExists (plugindir @ kpluginindex), IndexRead (plugindir @ kpluginindex)]
      else [FileExists (plugindir @ kpluginindex), FindPlugins plugindir])"

text \<open>\<^verbatim>\<open>pluginFileName\<close> after the directories, each match replacing the one before.\<close>

definition lastMatch :: "Env \<Rightarrow> QString \<Rightarrow> QString list \<Rightarrow> QString \<Rightarrow> QString" where
  "lastMatch env packageFormat dirs file0 =
     foldl (\<lambda>file plugindir. case dirMatch env packageFormat plugindir of
                                 Some c \<Rightarrow> c | None \<Rightarrow> file) file0 dirs"

definition pluginFileNameOf :: "Env \<Rightarrow> QString \<Rightarrow> QString" where
  "pluginFileNameOf env packageFormat =
     lastMatch env packageFormat (map libraryDir (libraryPaths env)) []"

text \<open>Everything one call of loadPackageStructure adds to the trace.\<close>

definition discoveryEvents :: "Env \<Rightarrow> QString \<Rightarrow> Event list" where
  "discoveryEvents env packageFormat =
     concat (map (probeEvents env) (map libraryDir (libraryPaths env)))
     @ (if pluginFileNameOf env packageFormat \<noteq> []
        then [ModuleLoad (pluginFileNameOf env packageFormat)] else [])"

section \<open>Scenarios\<close>

text \<open>
  An empty world; an environment with one library path, no index file and one plugin
  in \<^verbatim>\<open>foo.so\<close>; the same with an index file listing the plugin and a module that
  does not load; three library paths, the first with an index file listing two records
  for the format, the second without an index file and with three plugins, the last two
  of them for the format, the third with nothing.
\<close>

definition world0 :: World where
  "world0 = \<lparr>heap = Map.empty, nextAddr = 0, trace = []\<rparr>"

definition plugin :: "QString \<Rightarrow> QString \<Rightarrow> KPluginMetaData" where
  "plugin ident file =
     \<lparr>fileName = file, metaDataFileName = [], pluginId = ident, serviceTypes = [], isValid = True\<rparr>"

definition env_scan :: "QString \<Rightarrow> Module \<Rightarrow> Env" where
  "env_scan ident m =
     \<lparr>libraryPaths = [''/usr/lib/plugins''],
      standardLocations = [''/usr/share''],
      exists = (\<lambda>p. False),
      indexContent = (\<lambda>p. []),
      findPlugins = (\<lambda>dir. if dir = ''/usr/lib/plugins/kpackage/packagestructure/''
                             then [plugin ident ''foo.so''] else []),
      metadataFiles = (\<lambda>dir. []),
      module = (\<lambda>file. if file = ''foo.so'' then m else NotLoadable),
      genericRoot = ''kpackage/generic/''\<rparr>"

definition env_index :: Env where
  "env_index =
     \<lparr>libraryPaths = [''/usr/lib/plugins''],
      standardLocations = [''/usr/share''],
      exists = (\<lambda>p. p = ''/usr/lib/plugins/kpackage/packagestructure/kpluginindex.json''),
      indexContent = (\<lambda>p. if p = ''/usr/lib/plugins/kpackage/packagestructure/kpluginindex.json''
                             then [\<lparr>FileName = ''foo.so'', json_pluginId = ''foo.bar'',
                                    json_serviceTypes = [], json_isValid = True\<rparr>]
                             else []),
      findPlugins = (\<lambda>dir. []),
      metadataFiles = (\<lambda>dir. []),
      module = (\<lambda>file. NotLoadable),
      genericRoot = ''kpackage/generic/''\<rparr>"

definition env_three :: Env where
  "env_three =
     \<lparr>libraryPaths = [''/opt/a'', ''/opt/b'', ''/opt/c''],
      standardLocations = [''/usr/share''],
      exists = (\<lambda>p. p = ''/opt/a/kpackage/packagestructure/kpluginindex.json''),
      indexContent = (\<lambda>p. if p = ''/opt/a/kpackage/packagestructure/kpluginindex.json''
                             then [\<lparr>FileName = ''a.so'', json_pluginId = ''foo.bar'',
                                    json_serviceTypes = [], json_isValid = True\<rparr>,
                                   \<lparr>FileName = ''a2.so'', json_pluginId = ''foo.bar'',
                                    json_serviceTypes = [], json_isValid = True\<rparr>]
                             else []),
      findPlugins = (\<lambda>dir. if dir = ''/opt/b/kpackage/packagestructure/''
                             then [plugin ''other.id'' ''x.so'', plugin ''foo.bar'' ''b.so'',
                                   plugin ''foo.bar'' ''b2.so'']
                             else []),
      metadataFiles = (\<lambda>dir. []),
      module = (\<lambda>file. Creates ''foo/''),
      genericRoot = ''kpackage/generic/''\<rparr>"

definition index_once :: "PackageLoader \<times> World" where
  "index_once = snd (loadPackageStructure env_index ''foo.bar'' (PackageLoader_new, world0))"

definition scan_once :: "PackageLoader \<times> World" where
  "scan_once =
     snd (loadPackageStructure (env_scan ''foo.bar'' (Creates ''foo/'')) ''foo.bar''
            (PackageLoader_new, world0))"

text \<open>
  The loader self() creates, a loader of the application whose hook knows one format,
  and the globals before any call.
\<close>

definition defaultLoader :: PackageLoader where
  "defaultLoader = PackageLoader_new\<lparr>isDefaultLoader := True\<rparr>"

definition hookLoader :: PackageLoader where
  "hookLoader =
     PackageLoader_new
       \<lparr>internalLoadPackage :=
          (\<lambda>name. if name = ''app.fmt'' then Package_of 5 else Package_default)\<rparr>"

definition globals0 :: Globals where
  "globals0 = \<lparr>s_packageTrader = None, loaders = Map.empty, nextLoader = 0\<rparr>"

text \<open>
  What one data directory contributes to the listing, and the calls made while it is
  probed: the two branches of lines 223 to 261, without the state.
\<close>

definition dirListing :: "Env \<Rightarrow> QString \<Rightarrow> QString \<Rightarrow> KPluginMetaData list" where
  "dirListing env packageFormat plugindir =
     (if exists env (plugindir @ kpluginindex)
      then listIndex (indexContent env (plugindir @ kpluginindex))
      else listScan packageFormat (metadataFiles env plugindir))"

definition dataProbeEvents :: "Env \<Rightarrow> QString \<Rightarrow> Event list" where
  "dataProbeEvents env plugindir =
     (if exists env (plugindir @ kpluginindex)
      then [FileExists (plugindir @ kpluginindex), IndexRead (plugindir @ kpluginindex)]
      else [FileExists (plugindir @ kpluginindex), DirScan plugindir])"

text \<open>
  One plugin of service type \<^verbatim>\<open>Other/Type\<close> below \<^verbatim>\<open>/usr/share/plasma/plasmoids\<close>, as a record
  of an index file in that directory (when \<open>indexed\<close>) and as a descriptor file found by
  the scan. There are no library paths.
\<close>

definition clockJson :: QJsonObject where
  "clockJson =
     \<lparr>FileName = ''clock/metadata.desktop'', json_pluginId = ''org.kde.clock'',
      json_serviceTypes = [''Other/Type''], json_isValid = True\<rparr>"

definition clockInfo :: KPluginMetaData where
  "clockInfo =
     \<lparr>fileName = ''/usr/share/plasma/plasmoids/clock/metadata.desktop'',
      metaDataFileName = ''/usr/share/plasma/plasmoids/clock/metadata.desktop'',
      pluginId = ''org.kde.clock'', serviceTypes = [''Other/Type''], isValid = True\<rparr>"

definition env_data :: "bool \<Rightarrow> Env" where
  "env_data indexed =
     \<lparr>libraryPaths = [],
      standardLocations = [''/usr/share''],
      exists = (\<lambda>p. indexed \<and> p = ''/usr/share/plasma/plasmoids/kpluginindex.json''),
      indexContent = (\<lambda>p. if p = ''/usr/share/plasma/plasmoids/kpluginindex.json''
                             then [clockJson] else []),
      findPlugins = (\<lambda>dir. []),
      metadataFiles = (\<lambda>dir. if dir = ''/usr/share/plasma/plasmoids/''
                               \<or> dir = ''/usr/share/plasma/plasmoids''
                               then [clockInfo] else []),
      module = (\<lambda>file. NotLoadable),
      genericRoot = ''kpackage/generic/''\<rparr>"

section \<open>The singleton is set once\<close>

lemma setPackageLoader_installed:
  "s_packageTrader g \<noteq> None \<Longrightarrow> setPackageLoader loader g = g"
  by (auto simp: setPackageLoader_def)

lemma self_installs: "s_packageTrader (snd (self g)) \<noteq> None"
  by (simp add: self_def)

lemma self_returns_singleton: "fst (self g) = s_packageTrader (snd (self g))"
  by (simp add: self_def)

text \<open>
  C4. Once the singleton is not null, whether a call of setPackageLoader with a loader
  put it there or self() created the default, every later setPackageLoader returns the
  globals as they were: the pointer, and the loader objects, are unchanged.
\<close>

theorem C4_singleton_set_once:
  "(s_packageTrader g \<noteq> None \<longrightarrow> setPackageLoader l g = g)
   \<and> setPackageLoader l (snd (self g)) = snd (self g)
   \<and> (s_packageTrader g = None \<longrightarrow>
        s_packageTrader (setPackageLoader (Some a) g) = Some a
        \<and> setPackageLoader l (setPackageLoader (Some a) g) = setPackageLoader (Some a) g)"
proof (intro conjI impI)
  assume "s_packageTrader g \<noteq> None"
  then show "setPackageLoader l g = g" by (rule setPackageLoader_installed)
next
  show "setPackageLoader l (snd (self g)) = snd (self g)"
    by (rule setPackageLoader_installed) (rule self_installs)
next
  assume unset: "s_packageTrader g = None"
  then show first: "s_packageTrader (setPackageLoader (Some a) g) = Some a"
    by (simp add: setPackageLoader_def)
  then show "setPackageLoader l (setPackageLoader (Some a) g) = setPackageLoader (Some a) g"
    by (simp add: setPackageLoader_installed)
qed

theorem C4_singleton_set_once_witness:
  "s_packageTrader (setPackageLoader (Some 7) \<lparr>s_packageTrader = None, loaders = Map.empty, nextLoader = 0\<rparr>) = Some 7
   \<and> s_packageTrader
        (setPackageLoader (Some 9)
           (setPackageLoader (Some 7) \<lparr>s_packageTrader = None, loaders = Map.empty, nextLoader = 0\<rparr>)) = Some 7
   \<and> s_packageTrader
        (setPackageLoader (Some 9)
           (snd (self \<lparr>s_packageTrader = None, loaders = Map.empty, nextLoader = 0\<rparr>))) = Some 0
   \<and> setPackageLoader (Some 9) \<lparr>s_packageTrader = Some 3, loaders = Map.empty, nextLoader = 4\<rparr>
       = \<lparr>s_packageTrader = Some 3, loaders = Map.empty, nextLoader = 4\<rparr>"
  using C4_singleton_set_once
          [of "\<lparr>s_packageTrader = None, loaders = Map.empty, nextLoader = 0\<rparr>" "Some 9" 7]
        C4_singleton_set_once
          [of "\<lparr>s_packageTrader = Some 3, loaders = Map.empty, nextLoader = 4\<rparr>" "Some 9" 7]
  by (simp add: self_def)

section \<open>Discovery, as a function of the environment\<close>

lemma probeLibraryDir_eq:
  "probeLibraryDir env fmt d st =
     (case dirMatch env fmt d of Some c \<Rightarrow> c | None \<Rightarrow> fst st, snd st @ probeEvents env d)"
  by (simp add: probeLibraryDir_def dirMatch_def probeEvents_def Let_def)

lemma discover_eq:
  "discover env fmt dirs st =
     (lastMatch env fmt dirs (fst st), snd st @ concat (map (probeEvents env) dirs))"
  by (induction dirs arbitrary: st) (simp_all add: probeLibraryDir_eq lastMatch_def)

lemma cachedOrGeneric_trace: "trace (snd (cachedOrGeneric env fmt L w)) = trace w"
  by (simp add: cachedOrGeneric_def alloc_def split: option.splits)

lemma instantiate_trace:
  "trace (snd (snd (instantiate env file s0 w))) =
     trace w @ (if file \<noteq> [] then [ModuleLoad file] else [])"
  by (simp add: instantiate_def emit_def alloc_def Let_def split: Module.splits)

lemma instantiate_no_warning:
  "\<not> (fst (instantiate env file s0 w) \<noteq> None \<and> fst (snd (instantiate env file s0 w)) \<noteq> [])"
  by (simp add: instantiate_def Let_def alloc_def split: Module.splits prod.splits)

lemma loadPackageStructure_eq:
  "loadPackageStructure env fmt (L, w) =
     (let c = cachedOrGeneric env fmt L w;
          i = instantiate env (pluginFileNameOf env fmt) (fst c)
                ((snd c)\<lparr>trace := trace w @ concat (map (probeEvents env) (map libraryDir (libraryPaths env)))\<rparr>)
      in (fst i, L\<lparr>structures := (structures L)(fmt \<mapsto> fst i)\<rparr>, snd (snd i)))"
proof -
  obtain s0 w1 where c: "cachedOrGeneric env fmt L w = (s0, w1)" by (cases "cachedOrGeneric env fmt L w")
  have tr: "trace w1 = trace w" using cachedOrGeneric_trace [of env fmt L w] c by simp
  obtain s1 err w2 where i: "instantiate env (pluginFileNameOf env fmt) s0
      (w1\<lparr>trace := trace w @ concat (map (probeEvents env) (map libraryDir (libraryPaths env)))\<rparr>) = (s1, err, w2)"
    by (metis prod_cases3)
  have nw: "\<not> (s1 \<noteq> None \<and> err \<noteq> [])" using instantiate_no_warning i by (metis fst_conv snd_conv)
  show ?thesis
    using nw by (auto simp add: loadPackageStructure_def Let_def c tr i [unfolded pluginFileNameOf_def] discover_eq pluginFileNameOf_def
                  simp del: map_map)
qed

lemma loadPackageStructure_trace:
  "trace (snd (snd (loadPackageStructure env fmt (L, w)))) = trace w @ discoveryEvents env fmt"
  by (simp add: loadPackageStructure_eq Let_def instantiate_trace discoveryEvents_def)


lemma instantiate_result:
  "fst (instantiate env file s0 w) =
     (if file = [] then s0
      else case module env file of
             Creates root \<Rightarrow> Some (nextAddr w)
           | CreateFails \<Rightarrow> None
           | NoFactory \<Rightarrow> s0
           | NotLoadable \<Rightarrow> s0)"
  by (simp add: instantiate_def Let_def alloc_def emit_def split: Module.splits)

lemma loadPackageStructure_result:
  "fst (loadPackageStructure env fmt (L, w)) =
     (if pluginFileNameOf env fmt = [] then fst (cachedOrGeneric env fmt L w)
      else case module env (pluginFileNameOf env fmt) of
             Creates root \<Rightarrow> Some (nextAddr (snd (cachedOrGeneric env fmt L w)))
           | CreateFails \<Rightarrow> None
           | NoFactory \<Rightarrow> fst (cachedOrGeneric env fmt L w)
           | NotLoadable \<Rightarrow> fst (cachedOrGeneric env fmt L w))"
  by (simp add: loadPackageStructure_eq Let_def instantiate_result split: Module.splits)

lemma loadPackageStructure_cache:
  "fst (snd (loadPackageStructure env fmt (L, w))) =
     L\<lparr>structures := (structures L)(fmt \<mapsto> fst (loadPackageStructure env fmt (L, w)))\<rparr>"
  by (simp add: loadPackageStructure_eq Let_def)

lemma cached_null_entry: "structures L fmt = Some None \<Longrightarrow> cached L w fmt = None"
  by (simp add: cached_def)

lemma cachedOrGeneric_None:
  "fst (cachedOrGeneric env fmt L w) = None \<longleftrightarrow> cached L w fmt = None \<and> fmt \<noteq> genericFormat"
  by (simp add: cachedOrGeneric_def alloc_def split: option.splits)

lemma probe_in_discoveryEvents:
  "dir \<in> set (libraryPaths env) \<Longrightarrow>
     FileExists (libraryDir dir @ kpluginindex) \<in> set (discoveryEvents env fmt)
     \<and> (if exists env (libraryDir dir @ kpluginindex)
         then IndexRead (libraryDir dir @ kpluginindex) \<in> set (discoveryEvents env fmt)
         else FindPlugins (libraryDir dir) \<in> set (discoveryEvents env fmt))"
  by (auto simp: discoveryEvents_def probeEvents_def)

section \<open>Null results in the cache\<close>

text \<open>
  C7, amended. loadPackageStructure stores its result under the format whatever it is,
  null included. A null entry reads as a miss at the lookup of line 269, so a second
  identical call goes through discovery again: it probes every candidate directory
  (reading the index where there is one, enumerating plugins where not) and loads the
  module found. In the same environment it returns null again.
\<close>

theorem C7_null_cached_discovery_repeated:
  assumes first: "loadPackageStructure env fmt (L, w) = (r, L', w')"
  shows "structures L' fmt = Some r
         \<and> (r = None \<longrightarrow> cached L' w' fmt = None
                         \<and> fst (loadPackageStructure env fmt (L', w')) = None)
         \<and> trace (snd (snd (loadPackageStructure env fmt (L', w'))))
             = trace w' @ discoveryEvents env fmt
         \<and> (\<forall>dir \<in> set (libraryPaths env).
               FileExists (libraryDir dir @ kpluginindex) \<in> set (discoveryEvents env fmt)
               \<and> (if exists env (libraryDir dir @ kpluginindex)
                   then IndexRead (libraryDir dir @ kpluginindex) \<in> set (discoveryEvents env fmt)
                   else FindPlugins (libraryDir dir) \<in> set (discoveryEvents env fmt)))"
proof -
  have L': "L' = L\<lparr>structures := (structures L)(fmt \<mapsto> r)\<rparr>"
    using loadPackageStructure_cache [of env fmt L w] first by simp
  then have stored: "structures L' fmt = Some r" by simp
  have again: "cached L' w' fmt = None \<and> fst (loadPackageStructure env fmt (L', w')) = None"
    if null: "r = None"
  proof -
    have miss: "cached L' w' fmt = None"
      using stored null by (simp add: cached_null_entry)
    have r: "fst (loadPackageStructure env fmt (L, w)) = None"
      using first null by simp
    show ?thesis
    proof (cases "pluginFileNameOf env fmt = []")
      case True
      with r have "fst (cachedOrGeneric env fmt L w) = None"
        by (simp add: loadPackageStructure_result)
      then have "fmt \<noteq> genericFormat" by (simp add: cachedOrGeneric_None)
      with miss have "fst (cachedOrGeneric env fmt L' w') = None"
        by (simp add: cachedOrGeneric_None)
      with True miss show ?thesis by (simp add: loadPackageStructure_result)
    next
      case False
      show ?thesis
      proof (cases "module env (pluginFileNameOf env fmt)")
        case (Creates root)
        with False r show ?thesis by (simp add: loadPackageStructure_result)
      next
        case CreateFails
        with False miss show ?thesis by (simp add: loadPackageStructure_result)
      next
        case NoFactory
        with False r have "fst (cachedOrGeneric env fmt L w) = None"
          by (simp add: loadPackageStructure_result)
        then have "fmt \<noteq> genericFormat" by (simp add: cachedOrGeneric_None)
        with miss have "fst (cachedOrGeneric env fmt L' w') = None"
          by (simp add: cachedOrGeneric_None)
        with False NoFactory miss show ?thesis by (simp add: loadPackageStructure_result)
      next
        case NotLoadable
        with False r have "fst (cachedOrGeneric env fmt L w) = None"
          by (simp add: loadPackageStructure_result)
        then have "fmt \<noteq> genericFormat" by (simp add: cachedOrGeneric_None)
        with miss have "fst (cachedOrGeneric env fmt L' w') = None"
          by (simp add: cachedOrGeneric_None)
        with False NotLoadable miss show ?thesis by (simp add: loadPackageStructure_result)
      qed
    qed
  qed
  have tr: "trace (snd (snd (loadPackageStructure env fmt (L', w')))) = trace w' @ discoveryEvents env fmt"
    by (rule loadPackageStructure_trace)
  from stored again tr probe_in_discoveryEvents [of _ env fmt] show ?thesis by blast
qed

section \<open>Evaluation of the scenarios\<close>

lemmas eval_defs =
  loadPackageStructure_def cachedOrGeneric_def cached_def probeLibraryDir_def libraryDir_def
  instantiate_def alloc_def emit_def subDirectory_def separator_def endsWith_def
  kpluginindex_def genericFormat_def KPluginMetaData_json_def PackageLoader_new_def
  world0_def plugin_def Let_def

lemma index_first_call:
  "loadPackageStructure env_index ''foo.bar'' (PackageLoader_new, world0) =
     (None, PackageLoader_new\<lparr>structures := [''foo.bar'' \<mapsto> None]\<rparr>,
      world0\<lparr>trace := [FileExists ''/usr/lib/plugins/kpackage/packagestructure/kpluginindex.json'',
                         IndexRead ''/usr/lib/plugins/kpackage/packagestructure/kpluginindex.json'',
                         ModuleLoad ''foo.so'']\<rparr>)"
  by (simp add: eval_defs env_index_def)

lemma index_second_call:
  "loadPackageStructure env_index ''foo.bar''
     (PackageLoader_new\<lparr>structures := [''foo.bar'' \<mapsto> None]\<rparr>,
      world0\<lparr>trace := [FileExists ''/usr/lib/plugins/kpackage/packagestructure/kpluginindex.json'',
                         IndexRead ''/usr/lib/plugins/kpackage/packagestructure/kpluginindex.json'',
                         ModuleLoad ''foo.so'']\<rparr>) =
     (None, PackageLoader_new\<lparr>structures := [''foo.bar'' \<mapsto> None]\<rparr>,
      world0\<lparr>trace := [FileExists ''/usr/lib/plugins/kpackage/packagestructure/kpluginindex.json'',
                         IndexRead ''/usr/lib/plugins/kpackage/packagestructure/kpluginindex.json'',
                         ModuleLoad ''foo.so'',
                         FileExists ''/usr/lib/plugins/kpackage/packagestructure/kpluginindex.json'',
                         IndexRead ''/usr/lib/plugins/kpackage/packagestructure/kpluginindex.json'',
                         ModuleLoad ''foo.so'']\<rparr>)"
  by (simp add: eval_defs env_index_def)


lemma index_once_eq:
  "index_once =
     (PackageLoader_new\<lparr>structures := [''foo.bar'' \<mapsto> None]\<rparr>,
      world0\<lparr>trace := [FileExists ''/usr/lib/plugins/kpackage/packagestructure/kpluginindex.json'',
                         IndexRead ''/usr/lib/plugins/kpackage/packagestructure/kpluginindex.json'',
                         ModuleLoad ''foo.so'']\<rparr>)"
  by (simp add: index_once_def index_first_call)

text \<open>
  C7, as stated, fails on the scenario of the specification: an index file lists
  \<^verbatim>\<open>{FileName: foo.so, pluginId: foo.bar}\<close> and the module does not load. The first call
  returns null and stores null; the second call returns null as well, but it tests for
  the index file, reads the index and tries to load the module a second time.
\<close>

theorem C7_index_read_again:
  "fst (loadPackageStructure env_index ''foo.bar'' (PackageLoader_new, world0)) = None
   \<and> structures (fst index_once) ''foo.bar'' = Some None
   \<and> fst (loadPackageStructure env_index ''foo.bar'' index_once) = None
   \<and> trace (snd (snd (loadPackageStructure env_index ''foo.bar'' index_once)))
       = trace (snd index_once)
         @ [FileExists ''/usr/lib/plugins/kpackage/packagestructure/kpluginindex.json'',
            IndexRead ''/usr/lib/plugins/kpackage/packagestructure/kpluginindex.json'',
            ModuleLoad ''foo.so'']"
  by (simp add: index_once_eq index_first_call index_second_call)

text \<open>
  The amended C7 on the same scenario.
\<close>

theorem C7_null_cached_discovery_repeated_witness:
  "structures (fst index_once) ''foo.bar'' = Some None
   \<and> cached (fst index_once) (snd index_once) ''foo.bar'' = None
   \<and> fst (loadPackageStructure env_index ''foo.bar'' index_once) = None
   \<and> IndexRead (libraryDir ''/usr/lib/plugins'' @ kpluginindex)
        \<in> set (discoveryEvents env_index ''foo.bar'')"
proof -
  have first: "loadPackageStructure env_index ''foo.bar'' (PackageLoader_new, world0)
                 = (None, fst index_once, snd index_once)"
    by (simp add: index_once_eq index_first_call)
  have dir: "''/usr/lib/plugins'' \<in> set (libraryPaths env_index)"
    by (simp add: env_index_def)
  have ex: "exists env_index (libraryDir ''/usr/lib/plugins'' @ kpluginindex)"
    by (simp add: env_index_def eval_defs)
  show ?thesis
    using C7_null_cached_discovery_repeated [OF first] dir ex by auto
qed

lemma scan_first_call:
  "loadPackageStructure (env_scan ''foo.bar'' (Creates ''foo/'')) ''foo.bar'' (PackageLoader_new, world0) =
     (Some 0, PackageLoader_new\<lparr>structures := [''foo.bar'' \<mapsto> Some 0]\<rparr>,
      \<lparr>heap = [0 \<mapsto> \<lparr>origin = FromModule ''foo.so'', declaredRoot = ''foo/''\<rparr>],
       nextAddr = 1,
       trace = [FileExists ''/usr/lib/plugins/kpackage/packagestructure/kpluginindex.json'',
                FindPlugins ''/usr/lib/plugins/kpackage/packagestructure/'',
                ModuleLoad ''foo.so'']\<rparr>)"
  by (simp add: eval_defs env_scan_def)

lemma scan_once_eq:
  "scan_once =
     (PackageLoader_new\<lparr>structures := [''foo.bar'' \<mapsto> Some 0]\<rparr>,
      \<lparr>heap = [0 \<mapsto> \<lparr>origin = FromModule ''foo.so'', declaredRoot = ''foo/''\<rparr>],
       nextAddr = 1,
       trace = [FileExists ''/usr/lib/plugins/kpackage/packagestructure/kpluginindex.json'',
                FindPlugins ''/usr/lib/plugins/kpackage/packagestructure/'',
                ModuleLoad ''foo.so'']\<rparr>)"
  by (simp add: scan_once_def scan_first_call)

lemma scan_second_call:
  "loadPackageStructure (env_scan ''foo.bar'' (Creates ''foo/'')) ''foo.bar'' scan_once =
     (Some 1, PackageLoader_new\<lparr>structures := [''foo.bar'' \<mapsto> Some 1]\<rparr>,
      \<lparr>heap = [0 \<mapsto> \<lparr>origin = FromModule ''foo.so'', declaredRoot = ''foo/''\<rparr>,
               1 \<mapsto> \<lparr>origin = FromModule ''foo.so'', declaredRoot = ''foo/''\<rparr>],
       nextAddr = 2,
       trace = [FileExists ''/usr/lib/plugins/kpackage/packagestructure/kpluginindex.json'',
                FindPlugins ''/usr/lib/plugins/kpackage/packagestructure/'',
                ModuleLoad ''foo.so'',
                FileExists ''/usr/lib/plugins/kpackage/packagestructure/kpluginindex.json'',
                FindPlugins ''/usr/lib/plugins/kpackage/packagestructure/'',
                ModuleLoad ''foo.so'']\<rparr>)"
  by (simp add: scan_once_eq eval_defs env_scan_def)

text \<open>
  C1 at the failing input: one library path without an index file, a plugin \<^verbatim>\<open>foo.bar\<close> in
  \<^verbatim>\<open>foo.so\<close> whose factory creates a structure. The first call returns the object at
  address 0 and caches it; the second call finds it in the cache, runs the discovery again
  all the same (existence test, plugin enumeration, module load) and returns a new object,
  at address 1.
\<close>

theorem C1_second_call_new_handler:
  "fst (loadPackageStructure (env_scan ''foo.bar'' (Creates ''foo/'')) ''foo.bar''
          (PackageLoader_new, world0)) = Some 0
   \<and> cached (fst scan_once) (snd scan_once) ''foo.bar'' = Some 0
   \<and> fst (loadPackageStructure (env_scan ''foo.bar'' (Creates ''foo/'')) ''foo.bar'' scan_once) = Some 1
   \<and> trace (snd (snd (loadPackageStructure (env_scan ''foo.bar'' (Creates ''foo/'')) ''foo.bar'' scan_once)))
       = trace (snd scan_once)
         @ [FileExists ''/usr/lib/plugins/kpackage/packagestructure/kpluginindex.json'',
            FindPlugins ''/usr/lib/plugins/kpackage/packagestructure/'',
            ModuleLoad ''foo.so'']"
  by (simp add: scan_first_call scan_second_call) (simp add: scan_once_eq cached_def)

text \<open>
  C3 at the failing input: the format is \<^verbatim>\<open>KPackage/Generic\<close> and no plugin carries that
  id. The built-in structure is returned, yet the index file has been tested for and the
  plugins of the library directory have been enumerated. When a plugin does carry the
  reserved id and its factory creates nothing, the call returns null.
\<close>

theorem C3_generic_runs_discovery:
  "fst (loadPackageStructure (env_scan ''foo.bar'' NotLoadable) genericFormat (PackageLoader_new, world0))
     = Some 0
   \<and> trace (snd (snd (loadPackageStructure (env_scan ''foo.bar'' NotLoadable) genericFormat
                         (PackageLoader_new, world0))))
       = [FileExists ''/usr/lib/plugins/kpackage/packagestructure/kpluginindex.json'',
          FindPlugins ''/usr/lib/plugins/kpackage/packagestructure/'']
   \<and> fst (loadPackageStructure (env_scan genericFormat CreateFails) genericFormat
            (PackageLoader_new, world0)) = None"
  by (simp add: eval_defs env_scan_def)


section \<open>Which directory decides the module\<close>

lemma lastMatch_no_match:
  "\<forall>d \<in> set dirs. dirMatch env fmt d = None \<Longrightarrow> lastMatch env fmt dirs f0 = f0"
  by (induction dirs arbitrary: f0) (simp_all add: lastMatch_def)

lemma lastMatch_split:
  assumes "dirMatch env fmt d = Some c"
      and "\<forall>d' \<in> set post. dirMatch env fmt d' = None"
  shows "lastMatch env fmt (pre @ d # post) f0 = c"
proof -
  have "lastMatch env fmt (pre @ d # post) f0 = lastMatch env fmt post c"
    using assms(1) by (simp add: lastMatch_def)
  with assms(2) show ?thesis by (simp add: lastMatch_no_match)
qed

lemma probe_logged: "FileExists (d @ kpluginindex) \<in> set (probeEvents env d)"
  by (simp add: probeEvents_def)

lemma matchIndex_first:
  "map (\<lambda>obj. (json_pluginId obj, FileName obj)) objs = before @ (fmt, c) # rest \<Longrightarrow>
   fmt \<notin> fst ` set before \<Longrightarrow> matchIndex fmt objs = Some c"
proof (induction objs arbitrary: before)
  case Nil
  then show ?case by simp
next
  case (Cons obj objs)
  show ?case
  proof (cases before)
    case Nil
    with Cons.prems show ?thesis by (simp add: KPluginMetaData_json_def)
  next
    case (Cons b bs)
    with Cons.prems have "json_pluginId obj \<noteq> fmt"
      and "map (\<lambda>obj. (json_pluginId obj, FileName obj)) objs = bs @ (fmt, c) # rest"
      and "fmt \<notin> fst ` set bs"
      by auto
    with Cons.IH show ?thesis by (simp add: KPluginMetaData_json_def)
  qed
qed

lemma matchIndex_none:
  "fmt \<notin> json_pluginId ` set objs \<Longrightarrow> matchIndex fmt objs = None"
  by (induction objs) (auto simp: KPluginMetaData_json_def)

lemma matchPlugins_first:
  "map (\<lambda>md. (pluginId md, fileName md)) mds = before @ (fmt, c) # rest \<Longrightarrow>
   fmt \<notin> fst ` set before \<Longrightarrow> matchPlugins fmt mds = Some c"
proof (induction mds arbitrary: before)
  case Nil
  then show ?case by simp
next
  case (Cons md mds)
  show ?case
  proof (cases before)
    case Nil
    with Cons.prems show ?thesis by simp
  next
    case (Cons b bs)
    with Cons.prems have "pluginId md \<noteq> fmt"
      and "map (\<lambda>md. (pluginId md, fileName md)) mds = bs @ (fmt, c) # rest"
      and "fmt \<notin> fst ` set bs"
      by auto
    with Cons.IH show ?thesis by simp
  qed
qed

lemma matchPlugins_none:
  "fmt \<notin> pluginId ` set mds \<Longrightarrow> matchPlugins fmt mds = None"
  by (induction mds) auto

lemma dirMatch_first:
  assumes "dirCandidates env d = before @ (fmt, c) # rest" and "fmt \<notin> fst ` set before"
  shows "dirMatch env fmt d = Some c"
proof (cases "exists env (d @ kpluginindex)")
  case True
  with assms show ?thesis
    by (simp add: dirCandidates_def dirMatch_def matchIndex_first)
next
  case False
  with assms show ?thesis
    by (simp add: dirCandidates_def dirMatch_def matchPlugins_first)
qed

lemma dirMatch_none:
  assumes "fmt \<notin> fst ` set (dirCandidates env d)"
  shows "dirMatch env fmt d = None"
proof (cases "exists env (d @ kpluginindex)")
  case True
  with assms have "fmt \<notin> json_pluginId ` set (indexContent env (d @ kpluginindex))"
    by (force simp: dirCandidates_def)
  with True show ?thesis by (simp add: dirMatch_def matchIndex_none)
next
  case False
  with assms have "fmt \<notin> pluginId ` set (findPlugins env d)"
    by (force simp: dirCandidates_def)
  with False show ?thesis by (simp add: dirMatch_def matchPlugins_none)
qed

text \<open>
  C2, amended. Let the candidate directories be \<open>pre @ d # post\<close>. Let the records of \<open>d\<close>,
  in the order they are read, be \<open>before @ (fmt, c) # rest\<close> with no record of \<open>before\<close>
  carrying the format: \<open>c\<close> is the module path of the first record of \<open>d\<close> whose plugin id
  is the format. Let no record of a directory of \<open>post\<close> carry the format. Then
  \<^verbatim>\<open>pluginFileName\<close> is \<open>c\<close> after the loop, whatever \<open>pre\<close> and \<open>rest\<close> hold: the last
  matching directory in search-path order decides, by its first matching record. Every
  candidate directory is consulted, and the one module loaded, after all of them, is \<open>c\<close>
  when \<open>c\<close> is not empty.
\<close>

theorem C2_last_matching_directory_wins:
  assumes dirs: "map libraryDir (libraryPaths env) = pre @ d # post"
      and recs: "dirCandidates env d = before @ (fmt, c) # rest"
      and first: "fmt \<notin> fst ` set before"
      and later: "\<forall>d' \<in> set post. fmt \<notin> fst ` set (dirCandidates env d')"
  shows "fst (discover env fmt (map libraryDir (libraryPaths env)) ([], tr)) = c
         \<and> (\<forall>d' \<in> set (map libraryDir (libraryPaths env)).
               FileExists (d' @ kpluginindex)
                 \<in> set (snd (discover env fmt (map libraryDir (libraryPaths env)) ([], []))))
         \<and> (c \<noteq> [] \<longrightarrow>
               trace (snd (snd (loadPackageStructure env fmt (L, w))))
                 = trace w @ concat (map (probeEvents env) (map libraryDir (libraryPaths env)))
                   @ [ModuleLoad c])"
proof -
  have hit: "dirMatch env fmt d = Some c"
    using recs first by (rule dirMatch_first)
  have miss: "\<forall>d' \<in> set post. dirMatch env fmt d' = None"
    using later by (simp add: dirMatch_none)
  have last: "lastMatch env fmt (map libraryDir (libraryPaths env)) [] = c"
    unfolding dirs using hit miss by (rule lastMatch_split)
  have found: "fst (discover env fmt (map libraryDir (libraryPaths env)) ([], tr)) = c"
    using last by (simp add: discover_eq del: map_map)
  have all: "\<forall>d' \<in> set (map libraryDir (libraryPaths env)).
               FileExists (d' @ kpluginindex)
                 \<in> set (snd (discover env fmt (map libraryDir (libraryPaths env)) ([], [])))"
    using probe_logged by (fastforce simp add: discover_eq simp del: map_map)
  have load: "trace (snd (snd (loadPackageStructure env fmt (L, w))))
                 = trace w @ concat (map (probeEvents env) (map libraryDir (libraryPaths env)))
                   @ [ModuleLoad c]" if "c \<noteq> []"
    using that last by (simp add: loadPackageStructure_trace discoveryEvents_def pluginFileNameOf_def del: map_map)
  from found all load show ?thesis by blast
qed

lemmas dir_defs =
  dirCandidates_def libraryDir_def subDirectory_def separator_def endsWith_def kpluginindex_def
  plugin_def Let_def

text \<open>
  The amended C2 on three library paths. The second directory is the last that matches;
  its records are one of another plugin, then two for the format, \<^verbatim>\<open>b.so\<close> first.
\<close>

theorem C2_last_matching_directory_wins_witness:
  "fst (discover env_three ''foo.bar'' (map libraryDir (libraryPaths env_three)) ([], [])) = ''b.so''
   \<and> FileExists (''/opt/c/kpackage/packagestructure/'' @ kpluginindex)
        \<in> set (snd (discover env_three ''foo.bar'' (map libraryDir (libraryPaths env_three)) ([], [])))
   \<and> trace (snd (snd (loadPackageStructure env_three ''foo.bar'' (PackageLoader_new, world0))))
       = trace world0 @ concat (map (probeEvents env_three) (map libraryDir (libraryPaths env_three)))
         @ [ModuleLoad ''b.so'']"
proof -
  have dirs: "map libraryDir (libraryPaths env_three)
                = [''/opt/a/kpackage/packagestructure/''] @ ''/opt/b/kpackage/packagestructure/''
                  # [''/opt/c/kpackage/packagestructure/'']"
    by (simp add: env_three_def dir_defs)
  have recs: "dirCandidates env_three ''/opt/b/kpackage/packagestructure/''
                = [(''other.id'', ''x.so'')] @ (''foo.bar'', ''b.so'') # [(''foo.bar'', ''b2.so'')]"
    by (simp add: env_three_def dir_defs)
  have first: "''foo.bar'' \<notin> fst ` set [(''other.id'', ''x.so'')]"
    by simp
  have later: "\<forall>d' \<in> set [''/opt/c/kpackage/packagestructure/''].
                 ''foo.bar'' \<notin> fst ` set (dirCandidates env_three d')"
    by (simp add: env_three_def dir_defs)
  have c: "''/opt/c/kpackage/packagestructure/'' \<in> set (map libraryDir (libraryPaths env_three))"
    by (simp add: dirs del: map_map)
  note th = C2_last_matching_directory_wins
              [OF dirs recs first later, of "[]" PackageLoader_new world0]
  from th have one: "fst (discover env_three ''foo.bar'' (map libraryDir (libraryPaths env_three)) ([], [])) = ''b.so''"
    by blast
  from th c have two: "FileExists (''/opt/c/kpackage/packagestructure/'' @ kpluginindex)
        \<in> set (snd (discover env_three ''foo.bar'' (map libraryDir (libraryPaths env_three)) ([], [])))"
    by blast
  from th have three: "trace (snd (snd (loadPackageStructure env_three ''foo.bar'' (PackageLoader_new, world0))))
       = trace world0 @ concat (map (probeEvents env_three) (map libraryDir (libraryPaths env_three)))
         @ [ModuleLoad ''b.so'']"
    by simp
  from one two three show ?thesis by blast
qed

text \<open>
  C2, as stated, fails there: the first matching directory is the first one, whose index
  lists \<^verbatim>\<open>a.so\<close> and \<^verbatim>\<open>a2.so\<close> for the format; the directories after it are consulted
  nevertheless, and the module loaded is \<^verbatim>\<open>b.so\<close> from the second.
\<close>

theorem C2_first_matching_directory_loses:
  "dirCandidates env_three (libraryDir ''/opt/a'') = [(''foo.bar'', ''a.so''), (''foo.bar'', ''a2.so'')]
   \<and> fst (discover env_three ''foo.bar'' (map libraryDir (libraryPaths env_three)) ([], [])) = ''b.so''
   \<and> trace (snd (snd (loadPackageStructure env_three ''foo.bar'' (PackageLoader_new, world0))))
       = [FileExists ''/opt/a/kpackage/packagestructure/kpluginindex.json'',
          IndexRead ''/opt/a/kpackage/packagestructure/kpluginindex.json'',
          FileExists ''/opt/b/kpackage/packagestructure/kpluginindex.json'',
          FindPlugins ''/opt/b/kpackage/packagestructure/'',
          FileExists ''/opt/c/kpackage/packagestructure/kpluginindex.json'',
          FindPlugins ''/opt/c/kpackage/packagestructure/'',
          ModuleLoad ''b.so'']"
  by (simp add: eval_defs env_three_def dirCandidates_def)

section \<open>loadPackage: the hook and the invalid package\<close>

lemma cachedOrGeneric_emit:
  "fst (cachedOrGeneric env fmt L (emit es w)) = fst (cachedOrGeneric env fmt L w)
   \<and> nextAddr (snd (cachedOrGeneric env fmt L (emit es w))) = nextAddr (snd (cachedOrGeneric env fmt L w))"
  by (simp add: cachedOrGeneric_def cached_def emit_def alloc_def split: option.splits)

lemma loadPackageStructure_emit:
  "fst (loadPackageStructure env fmt (L, emit es w)) = fst (loadPackageStructure env fmt (L, w))"
  by (simp add: loadPackageStructure_result cachedOrGeneric_emit split: Module.splits)

lemma no_hook_in_discovery: "HookCall x \<notin> set (discoveryEvents env fmt)"
  by (auto simp: discoveryEvents_def probeEvents_def)

lemma loadPackage_standard_trace:
  "trace (snd (snd (loadPackage_standard env fmt pth (L, w)))) =
     trace w @ (if fmt = [] then [] else discoveryEvents env fmt)"
proof (cases "fmt = []")
  case True
  then show ?thesis by (simp add: loadPackage_standard_def)
next
  case False
  obtain r L1 w1 where e: "loadPackageStructure env fmt (L, w) = (r, L1, w1)"
    by (metis prod_cases3)
  then have "trace w1 = trace w @ discoveryEvents env fmt"
    using loadPackageStructure_trace [of env fmt L w] by simp
  with False e show ?thesis
    by (simp add: loadPackage_standard_def Let_def split: option.splits)
qed

lemma loadPackage_standard_invalid:
  "fmt = [] \<or> fst (loadPackageStructure env fmt (L, w)) = None \<Longrightarrow>
     fst (loadPackage_standard env fmt pth (L, w)) = Package_default"
  by (auto simp: loadPackage_standard_def split: prod.splits option.splits)

text \<open>
  C5. On a loader with \<^verbatim>\<open>isDefaultLoader\<close> set, loadPackage is the standard mechanism and
  its trace holds no call of the hook. On any other loader the hook is called first. When
  the package it returns has a valid structure, that package is the result, with the path
  set only when the path is not empty; the loader is unchanged (nothing is resolved or
  stored) and the trace holds the call of the hook alone, whatever the format, the empty
  one included. The loader that self() creates when none is set has the flag set.
\<close>

theorem C5_hook_only_for_non_default:
  "(isDefaultLoader L \<longrightarrow>
      loadPackage env fmt pth (L, w) = loadPackage_standard env fmt pth (L, w)
      \<and> trace (snd (snd (loadPackage env fmt pth (L, w))))
          = trace w @ (if fmt = [] then [] else discoveryEvents env fmt)
      \<and> (\<forall>x. HookCall x \<notin> set (if fmt = [] then [] else discoveryEvents env fmt)))
   \<and> (\<not> isDefaultLoader L \<longrightarrow>
        (\<exists>es. trace (snd (snd (loadPackage env fmt pth (L, w)))) = trace w @ HookCall fmt # es))
   \<and> (\<not> isDefaultLoader L \<and> hasValidStructure (internalLoadPackage L fmt) \<longrightarrow>
        loadPackage env fmt pth (L, w)
          = (if pth = [] then internalLoadPackage L fmt else setPath pth (internalLoadPackage L fmt),
             L, emit [HookCall fmt] w))
   \<and> (s_packageTrader g = None \<longrightarrow>
        (\<exists>p L0. fst (self g) = Some p \<and> loaders (snd (self g)) p = Some L0 \<and> isDefaultLoader L0))"
proof (intro conjI impI)
  assume "isDefaultLoader L"
  then show "loadPackage env fmt pth (L, w) = loadPackage_standard env fmt pth (L, w)"
    by (simp add: loadPackage_def)
  then show "trace (snd (snd (loadPackage env fmt pth (L, w))))
          = trace w @ (if fmt = [] then [] else discoveryEvents env fmt)"
    by (simp add: loadPackage_standard_trace)
next
  show "\<forall>x. HookCall x \<notin> set (if fmt = [] then [] else discoveryEvents env fmt)"
    by (simp add: no_hook_in_discovery)
next
  assume "\<not> isDefaultLoader L"
  then show "\<exists>es. trace (snd (snd (loadPackage env fmt pth (L, w)))) = trace w @ HookCall fmt # es"
    by (simp add: loadPackage_def Let_def loadPackage_standard_trace emit_def)
next
  assume "\<not> isDefaultLoader L \<and> hasValidStructure (internalLoadPackage L fmt)"
  then show "loadPackage env fmt pth (L, w)
          = (if pth = [] then internalLoadPackage L fmt else setPath pth (internalLoadPackage L fmt),
             L, emit [HookCall fmt] w)"
    by (simp add: loadPackage_def Let_def)
next
  assume "s_packageTrader g = None"
  then show "\<exists>p L0. fst (self g) = Some p \<and> loaders (snd (self g)) p = Some L0 \<and> isDefaultLoader L0"
    by (simp add: self_def)
qed

text \<open>
  C6. When the hook is not consulted or returns no valid package: an empty format gives
  the invalid package at once, in every environment, with the loader unchanged and no
  call beyond the hook's; a format that is not empty and for which loadPackageStructure
  returns null gives the invalid package too. Both are values returned by the function.
\<close>

theorem C6_invalid_package_returned:
  assumes nohook: "isDefaultLoader L \<or> \<not> hasValidStructure (internalLoadPackage L fmt)"
  shows "(fmt = [] \<longrightarrow>
            loadPackage env fmt pth (L, w)
              = (Package_default, L, if isDefaultLoader L then w else emit [HookCall fmt] w))
         \<and> (fmt \<noteq> [] \<and> fst (loadPackageStructure env fmt (L, w)) = None \<longrightarrow>
              fst (loadPackage env fmt pth (L, w)) = Package_default)
         \<and> \<not> hasValidStructure Package_default"
proof (intro conjI impI)
  assume "fmt = []"
  with nohook show "loadPackage env fmt pth (L, w)
              = (Package_default, L, if isDefaultLoader L then w else emit [HookCall fmt] w)"
    by (auto simp: loadPackage_def loadPackage_standard_def Let_def)
next
  assume a: "fmt \<noteq> [] \<and> fst (loadPackageStructure env fmt (L, w)) = None"
  show "fst (loadPackage env fmt pth (L, w)) = Package_default"
  proof (cases "isDefaultLoader L")
    case True
    with a show ?thesis by (simp add: loadPackage_def loadPackage_standard_invalid)
  next
    case False
    with nohook have "\<not> hasValidStructure (internalLoadPackage L fmt)" by simp
    moreover have "fst (loadPackageStructure env fmt (L, emit [HookCall fmt] w)) = None"
      using a by (simp add: loadPackageStructure_emit)
    ultimately show ?thesis
      using False by (simp add: loadPackage_def Let_def loadPackage_standard_invalid)
  qed
next
  show "\<not> hasValidStructure Package_default"
    by (simp add: hasValidStructure_def Package_default_def)
qed


text \<open>
  C5 on a loader whose hook knows \<^verbatim>\<open>app.fmt\<close>, and on the default loader.
\<close>

theorem C5_hook_only_for_non_default_witness:
  "loadPackage (env_scan ''foo.bar'' NotLoadable) ''app.fmt'' ''/tmp/pkg'' (hookLoader, world0)
     = (\<lparr>structurePtr = Some 5, path = ''/tmp/pkg''\<rparr>, hookLoader,
        world0\<lparr>trace := [HookCall ''app.fmt'']\<rparr>)
   \<and> loadPackage (env_scan ''foo.bar'' NotLoadable) [] [] (hookLoader, world0)
       = (Package_default, hookLoader, world0\<lparr>trace := [HookCall []]\<rparr>)
   \<and> trace (snd (snd (loadPackage (env_scan ''foo.bar'' NotLoadable) ''foo.bar'' [] (defaultLoader, world0))))
       = discoveryEvents (env_scan ''foo.bar'' NotLoadable) ''foo.bar''
   \<and> (\<exists>p L0. fst (self globals0) = Some p \<and> loaders (snd (self globals0)) p = Some L0
               \<and> isDefaultLoader L0)"
proof -
  have custom: "\<not> isDefaultLoader hookLoader"
    by (simp add: hookLoader_def PackageLoader_new_def)
  have valid: "hasValidStructure (internalLoadPackage hookLoader ''app.fmt'')"
    by (simp add: hookLoader_def hasValidStructure_def Package_of_def)
  have dflt: "isDefaultLoader defaultLoader"
    by (simp add: defaultLoader_def)
  have unset: "s_packageTrader globals0 = None"
    by (simp add: globals0_def)
  note hooked = C5_hook_only_for_non_default
                  [of hookLoader "env_scan ''foo.bar'' NotLoadable" "''app.fmt''" "''/tmp/pkg''" world0 globals0]
  note plain = C5_hook_only_for_non_default
                  [of defaultLoader "env_scan ''foo.bar'' NotLoadable" "''foo.bar''" "[]" world0 globals0]
  have one: "loadPackage (env_scan ''foo.bar'' NotLoadable) ''app.fmt'' ''/tmp/pkg'' (hookLoader, world0)
     = (\<lparr>structurePtr = Some 5, path = ''/tmp/pkg''\<rparr>, hookLoader,
        world0\<lparr>trace := [HookCall ''app.fmt'']\<rparr>)"
    using hooked custom valid
    by (simp add: hookLoader_def setPath_def Package_of_def emit_def world0_def)
  have two: "loadPackage (env_scan ''foo.bar'' NotLoadable) [] [] (hookLoader, world0)
       = (Package_default, hookLoader, world0\<lparr>trace := [HookCall []]\<rparr>)"
    using custom
    by (simp add: loadPackage_def loadPackage_standard_def Let_def hookLoader_def
          hasValidStructure_def Package_default_def emit_def world0_def)
  have three: "trace (snd (snd (loadPackage (env_scan ''foo.bar'' NotLoadable) ''foo.bar'' [] (defaultLoader, world0))))
       = discoveryEvents (env_scan ''foo.bar'' NotLoadable) ''foo.bar''"
  proof -
    from plain dflt
    have "trace (snd (snd (loadPackage (env_scan ''foo.bar'' NotLoadable) ''foo.bar'' [] (defaultLoader, world0))))
            = trace world0 @ (if ''foo.bar'' = [] then [] else discoveryEvents (env_scan ''foo.bar'' NotLoadable) ''foo.bar'')"
      by blast
    then show ?thesis by (simp add: world0_def)
  qed
  have four: "\<exists>p L0. fst (self globals0) = Some p \<and> loaders (snd (self globals0)) p = Some L0
               \<and> isDefaultLoader L0"
    using plain unset by blast
  from one two three four show ?thesis by blast
qed

text \<open>
  C6 on the default loader with an empty format, and on a loader whose hook does not
  know the format, with a format no plugin carries.
\<close>

theorem C6_invalid_package_returned_witness:
  "loadPackage (env_scan ''foo.bar'' (Creates ''foo/'')) [] ''/tmp/pkg'' (defaultLoader, world0)
     = (Package_default, defaultLoader, world0)
   \<and> fst (loadPackage (env_scan ''foo.bar'' (Creates ''foo/'')) ''no.such'' [] (hookLoader, world0))
       = Package_default
   \<and> \<not> hasValidStructure Package_default"
proof -
  have dflt: "isDefaultLoader defaultLoader \<or> \<not> hasValidStructure (internalLoadPackage defaultLoader [])"
    by (simp add: defaultLoader_def)
  have nohook: "isDefaultLoader hookLoader \<or> \<not> hasValidStructure (internalLoadPackage hookLoader ''no.such'')"
    by (simp add: hookLoader_def hasValidStructure_def Package_default_def)
  have unresolved: "fst (loadPackageStructure (env_scan ''foo.bar'' (Creates ''foo/'')) ''no.such''
                           (hookLoader, world0)) = None"
    by (simp add: eval_defs env_scan_def hookLoader_def)
  from C6_invalid_package_returned [OF dflt, of "env_scan ''foo.bar'' (Creates ''foo/'')" "''/tmp/pkg''" world0]
  have one: "loadPackage (env_scan ''foo.bar'' (Creates ''foo/'')) [] ''/tmp/pkg'' (defaultLoader, world0)
     = (Package_default, defaultLoader, world0)"
    using dflt by (simp add: defaultLoader_def)
  from C6_invalid_package_returned [OF nohook, of "env_scan ''foo.bar'' (Creates ''foo/'')" "[]" world0]
       unresolved
  have two: "fst (loadPackage (env_scan ''foo.bar'' (Creates ''foo/'')) ''no.such'' [] (hookLoader, world0))
       = Package_default"
    by simp
  from C6_invalid_package_returned [OF dflt]
  have three: "\<not> hasValidStructure Package_default" by blast
  from one two three show ?thesis by blast
qed

section \<open>listPackages\<close>

lemma probeDataDir_eq:
  "probeDataDir env fmt root datadir st =
     (fst st @ dirListing env fmt (dataDir root datadir),
      snd st @ dataProbeEvents env (dataDir root datadir))"
  by (simp add: probeDataDir_def dirListing_def dataProbeEvents_def Let_def)

lemma listLocations_eq:
  "listLocations env fmt root dirs st =
     (fst st @ concat (map (\<lambda>datadir. dirListing env fmt (dataDir root datadir)) dirs),
      snd st @ concat (map (\<lambda>datadir. dataProbeEvents env (dataDir root datadir)) dirs))"
  by (induction dirs arbitrary: st) (simp_all add: probeDataDir_eq)

lemma listIndex_eq:
  "listIndex objs = map (\<lambda>obj. KPluginMetaData_json obj [] (FileName obj)) (filter json_isValid objs)"
  by (induction objs) (simp_all add: KPluginMetaData_json_def Let_def)

lemma listScan_eq:
  "listScan fmt infos =
     filter (\<lambda>info. isValid info \<and> (fmt = [] \<or> fmt \<in> set (serviceTypes info))) infos"
  by (induction infos) simp_all

lemma dirListing_eq:
  "dirListing env fmt d =
     (if exists env (d @ kpluginindex)
      then map (\<lambda>obj. KPluginMetaData_json obj [] (FileName obj))
             (filter json_isValid (indexContent env (d @ kpluginindex)))
      else filter (\<lambda>info. isValid info \<and> (fmt = [] \<or> fmt \<in> set (serviceTypes info)))
             (metadataFiles env d))"
  by (simp add: dirListing_def listIndex_eq listScan_eq)

lemma listPackages_eq:
  "listPackages env fmt root s =
     (concat (map (\<lambda>datadir. dirListing env fmt (dataDir (fst (resolveRoot env fmt root s)) datadir))
                (standardLocations env)),
      fst (snd (resolveRoot env fmt root s)),
      (snd (snd (resolveRoot env fmt root s)))
        \<lparr>trace := trace (snd (snd (resolveRoot env fmt root s)))
                   @ concat (map (\<lambda>datadir. dataProbeEvents env
                                      (dataDir (fst (resolveRoot env fmt root s)) datadir))
                              (standardLocations env))\<rparr>)"
  by (simp add: listPackages_def listLocations_eq split: prod.splits)

lemma resolveRoot_given:
  "root \<noteq> [] \<Longrightarrow> resolveRoot env fmt root s = (root, fst s, snd s)"
  by (simp add: resolveRoot_def)

text \<open>
  The list returned by listPackages, data location by data location: where the file the
  code tests for exists, every record of the index that is valid, whatever its service
  types and whatever the format; elsewhere, the descriptors found by the scan that are
  valid and, when the format is not empty, declare it among their service types.
\<close>

lemma listPackages_listing:
  "fst (listPackages env fmt root s) =
     concat (map (\<lambda>datadir.
                    if exists env (dataDir (fst (resolveRoot env fmt root s)) datadir @ kpluginindex)
                    then map (\<lambda>obj. KPluginMetaData_json obj [] (FileName obj))
                           (filter json_isValid
                              (indexContent env
                                 (dataDir (fst (resolveRoot env fmt root s)) datadir @ kpluginindex)))
                    else filter (\<lambda>info. isValid info \<and> (fmt = [] \<or> fmt \<in> set (serviceTypes info)))
                           (metadataFiles env (dataDir (fst (resolveRoot env fmt root s)) datadir)))
               (standardLocations env))"
  by (simp add: listPackages_eq dirListing_eq)

text \<open>
  With a root that ends in a slash the file tested for is the index file of the
  directory: the plugin of another service type is listed from the index, and not listed
  by the scan when there is no index.
\<close>

lemma listing_differs:
  "fst (listPackages (env_data True) ''Plasma/Applet'' ''plasma/plasmoids/'' (defaultLoader, world0))
     = [KPluginMetaData_json clockJson [] ''clock/metadata.desktop'']
   \<and> fst (listPackages (env_data False) ''Plasma/Applet'' ''plasma/plasmoids/'' (defaultLoader, world0))
       = []"
  by (simp add: listPackages_eq resolveRoot_given dirListing_def dataDir_def kpluginindex_def
        env_data_def clockJson_def clockInfo_def KPluginMetaData_json_def)

text \<open>
  C10 at the failing input: listPackages for \<^verbatim>\<open>Plasma/Applet\<close> with the root
  \<^verbatim>\<open>plasma/plasmoids\<close>. The directory \<^verbatim>\<open>/usr/share/plasma/plasmoids\<close> has an index file
  whose one record is valid. Line 220 tests for another file, so the directory is
  scanned, the filter on the service types is applied to the descriptor of the plugin,
  and the result is empty: the valid record of the index is not in it.
\<close>

theorem C10_index_record_not_listed:
  "exists (env_data True) (''/usr/share/plasma/plasmoids'' @ ''/'' @ kpluginindex)
   \<and> indexContent (env_data True) (''/usr/share/plasma/plasmoids'' @ ''/'' @ kpluginindex)
       = [clockJson]
   \<and> json_isValid clockJson
   \<and> metadataFiles (env_data True) (dataDir ''plasma/plasmoids'' ''/usr/share'') = [clockInfo]
   \<and> isValid clockInfo
   \<and> ''Plasma/Applet'' \<notin> set (serviceTypes clockInfo)
   \<and> fst (listPackages (env_data True) ''Plasma/Applet'' ''plasma/plasmoids''
            (defaultLoader, world0)) = []"
  by (simp add: listPackages_eq resolveRoot_given dirListing_def dataDir_def kpluginindex_def
        env_data_def clockJson_def clockInfo_def)

lemma cached_live: "cached L w fmt = Some a \<Longrightarrow> heap w a \<noteq> None"
  by (auto simp: cached_def split: option.splits if_splits)

lemma cached_store:
  "heap w a \<noteq> None \<Longrightarrow> cached (L\<lparr>structures := (structures L)(fmt \<mapsto> Some a)\<rparr>) w fmt = Some a"
  by (simp add: cached_def)

lemma cached_trace: "cached L (w\<lparr>trace := tr\<rparr>) fmt = cached L w fmt"
  by (simp add: cached_def split: option.splits)

lemma defaultPackageRoot_trace: "defaultPackageRoot (w\<lparr>trace := tr\<rparr>) p = defaultPackageRoot w p"
  by (simp add: defaultPackageRoot_def split: option.splits)

lemma loadPackageStructure_live:
  assumes "cached L w fmt = None" and "fmt \<noteq> genericFormat"
      and "loadPackageStructure env fmt (L, w) = (Some a, L1, w1)"
  shows "heap w1 a \<noteq> None"
proof -
  have c: "cachedOrGeneric env fmt L w = (None, w)"
    using assms(1,2) by (simp add: cachedOrGeneric_def)
  show ?thesis
    using assms(3)
    by (auto simp: loadPackageStructure_eq c instantiate_def Let_def alloc_def emit_def
             split: if_splits Module.splits)
qed

lemma rootFromStructure_cached:
  assumes "rootFromStructure env fmt (L, w) = (root, L', w')"
  shows "(case cached L' w' fmt of
            Some a \<Rightarrow> root = defaultPackageRoot w' (Package_of a)
          | None \<Rightarrow> root = [])
         \<and> (cached L' w' fmt = None \<longleftrightarrow>
              cached L w fmt = None \<and> fmt \<noteq> genericFormat
              \<and> fst (loadPackageStructure env fmt (L, w)) = None)"
proof (cases "cached L w fmt")
  case (Some a)
  then have c: "cachedOrGeneric env fmt L w = (Some a, w)"
    by (simp add: cachedOrGeneric_def)
  have live: "heap w a \<noteq> None" using Some by (rule cached_live)
  from assms c have "root = defaultPackageRoot w (Package_of a)"
    and "L' = L\<lparr>structures := (structures L)(fmt \<mapsto> Some a)\<rparr>" and "w' = w"
    by (auto simp: rootFromStructure_def)
  with live Some show ?thesis by (simp add: cached_store)
next
  case None
  show ?thesis
  proof (cases "fmt = genericFormat")
    case True
    obtain a w1 where al: "alloc \<lparr>origin = GenericPackage, declaredRoot = genericRoot env\<rparr> w = (a, w1)"
      by (cases "alloc \<lparr>origin = GenericPackage, declaredRoot = genericRoot env\<rparr> w")
    then have live: "heap w1 a \<noteq> None" by (auto simp: alloc_def)
    have c: "cachedOrGeneric env fmt L w = (Some a, w1)"
      using None True al by (simp add: cachedOrGeneric_def)
    from assms c have "root = defaultPackageRoot w1 (Package_of a)"
      and "L' = L\<lparr>structures := (structures L)(fmt \<mapsto> Some a)\<rparr>" and "w' = w1"
      by (auto simp: rootFromStructure_def)
    with live True show ?thesis by (simp add: cached_store)
  next
    case False
    have c: "cachedOrGeneric env fmt L w = (None, w)"
      using None False by (simp add: cachedOrGeneric_def)
    obtain r L1 w1 where lp: "loadPackageStructure env fmt (L, w) = (r, L1, w1)"
      by (metis prod_cases3)
    have L1: "L1 = L\<lparr>structures := (structures L)(fmt \<mapsto> r)\<rparr>"
      using loadPackageStructure_cache [of env fmt L w] lp by simp
    show ?thesis
    proof (cases r)
      case None
      from assms c lp None have "root = []" and "L' = L1" and "w' = w1"
        by (auto simp: rootFromStructure_def)
      with L1 None \<open>cached L w fmt = None\<close> False lp show ?thesis
        by (simp add: cached_def)
    next
      case (Some a)
      have live: "heap w1 a \<noteq> None"
        using loadPackageStructure_live [OF \<open>cached L w fmt = None\<close> False] lp Some by simp
      from assms c lp Some have "root = defaultPackageRoot w1 (Package_of a)"
        and "L' = L1\<lparr>structures := (structures L1)(fmt \<mapsto> Some a)\<rparr>" and "w' = w1"
        by (auto simp: rootFromStructure_def)
      with live Some lp show ?thesis by (simp add: cached_store)
    qed
  qed
qed


lemma discover_file:
  "fst (discover env fmt (map libraryDir (libraryPaths env)) ([], tr)) = pluginFileNameOf env fmt"
  by (simp add: discover_eq pluginFileNameOf_def del: map_map)

lemma loadPackageStructure_created:
  assumes "pluginFileNameOf env fmt \<noteq> []"
      and "module env (pluginFileNameOf env fmt) = Creates r"
  shows "\<exists>a. fst (loadPackageStructure env fmt (L, w)) = Some a
             \<and> heap (snd (snd (loadPackageStructure env fmt (L, w)))) a
                 = Some \<lparr>origin = FromModule (pluginFileNameOf env fmt), declaredRoot = r\<rparr>"
  using assms
  by (simp add: loadPackageStructure_eq Let_def instantiate_def alloc_def emit_def
           del: map_map)

lemma rootFromStructure_resolved:
  assumes "rootFromStructure env fmt (L, w) = (root, L', w')"
  shows "(\<forall>a. cached L w fmt = Some a \<longrightarrow> cached L' w' fmt = Some a \<and> heap w' = heap w)
         \<and> (cached L w fmt = None \<and> fmt = genericFormat \<longrightarrow>
              cached L' w' fmt = Some (nextAddr w)
              \<and> heap w' = (heap w)(nextAddr w \<mapsto>
                              \<lparr>origin = GenericPackage, declaredRoot = genericRoot env\<rparr>))
         \<and> (cached L w fmt = None \<and> fmt \<noteq> genericFormat \<longrightarrow>
              cached L' w' fmt = fst (loadPackageStructure env fmt (L, w))
              \<and> heap w' = heap (snd (snd (loadPackageStructure env fmt (L, w)))))"
proof (cases "cached L w fmt")
  case (Some a)
  then have c: "cachedOrGeneric env fmt L w = (Some a, w)"
    by (simp add: cachedOrGeneric_def)
  have live: "heap w a \<noteq> None" using Some by (rule cached_live)
  from assms c have "L' = L\<lparr>structures := (structures L)(fmt \<mapsto> Some a)\<rparr>" and "w' = w"
    by (auto simp: rootFromStructure_def)
  with live Some show ?thesis by (simp add: cached_store)
next
  case None
  show ?thesis
  proof (cases "fmt = genericFormat")
    case True
    have c: "cachedOrGeneric env fmt L w =
               (Some (nextAddr w),
                w\<lparr>heap := (heap w)(nextAddr w \<mapsto>
                              \<lparr>origin = GenericPackage, declaredRoot = genericRoot env\<rparr>),
                  nextAddr := Suc (nextAddr w)\<rparr>)"
      using None True by (simp add: cachedOrGeneric_def alloc_def)
    from assms c have "L' = L\<lparr>structures := (structures L)(fmt \<mapsto> Some (nextAddr w))\<rparr>"
      and "w' = w\<lparr>heap := (heap w)(nextAddr w \<mapsto>
                              \<lparr>origin = GenericPackage, declaredRoot = genericRoot env\<rparr>),
                  nextAddr := Suc (nextAddr w)\<rparr>"
      by (auto simp: rootFromStructure_def)
    with None True show ?thesis by (simp add: cached_store)
  next
    case False
    have c: "cachedOrGeneric env fmt L w = (None, w)"
      using None False by (simp add: cachedOrGeneric_def)
    obtain r L1 w1 where lp: "loadPackageStructure env fmt (L, w) = (r, L1, w1)"
      by (metis prod_cases3)
    have L1: "L1 = L\<lparr>structures := (structures L)(fmt \<mapsto> r)\<rparr>"
      using loadPackageStructure_cache [of env fmt L w] lp by simp
    show ?thesis
    proof (cases r)
      case None
      from assms c lp None have "L' = L1" and "w' = w1"
        by (auto simp: rootFromStructure_def)
      with L1 None \<open>cached L w fmt = None\<close> False lp show ?thesis
        by (simp add: cached_def)
    next
      case (Some a)
      have live: "heap w1 a \<noteq> None"
        using loadPackageStructure_live [OF \<open>cached L w fmt = None\<close> False] lp Some by simp
      from assms c lp Some have "L' = L1\<lparr>structures := (structures L1)(fmt \<mapsto> Some a)\<rparr>"
        and "w' = w1"
        by (auto simp: rootFromStructure_def)
      with live Some lp \<open>cached L w fmt = None\<close> False show ?thesis
        by (simp add: cached_store)
    qed
  qed
qed

text \<open>
  C9. After listPackages with an empty root, the result and the last calls of the trace
  are those of the directories \<^verbatim>\<open>location/root\<close>, one for each standard data location,
  where the root is determined as follows. The handler is the object cached under the
  format before the call when there is a live one; otherwise a new built-in
  GenericPackage when the format is the generic one; otherwise what loadPackageStructure
  returns on the state before the call. The cache holds that handler under the format
  after the call, and the heap is the one that resolution leaves. The root is the
  declared default root of the handler when there is a handler and that root is not
  empty, and the format itself otherwise. In particular, when nothing is cached, the
  format is not the generic one and discovery finds a module whose factory creates a
  structure declaring the root \<open>r\<close>, the root is \<open>r\<close>, or the format when \<open>r\<close> is empty.
\<close>

theorem C9_root_from_structure_or_format:
  assumes call: "listPackages env fmt [] (L, w) = (lst, L', w')"
  shows "lst = concat (map (\<lambda>datadir. dirListing env fmt
                                         (datadir @ ''/'' @ fst (resolveRoot env fmt [] (L, w))))
                         (standardLocations env))
         \<and> (\<exists>pre. trace w' =
                pre @ concat (map (\<lambda>datadir. dataProbeEvents env
                                                 (datadir @ ''/'' @ fst (resolveRoot env fmt [] (L, w))))
                                (standardLocations env)))
         \<and> (case cached L' w' fmt of
              Some a \<Rightarrow> fst (resolveRoot env fmt [] (L, w))
                          = (if defaultPackageRoot w' (Package_of a) = [] then fmt
                             else defaultPackageRoot w' (Package_of a))
            | None \<Rightarrow> fst (resolveRoot env fmt [] (L, w)) = fmt)
         \<and> (\<forall>a. cached L w fmt = Some a \<longrightarrow> cached L' w' fmt = Some a \<and> heap w' = heap w)
         \<and> (cached L w fmt = None \<and> fmt = genericFormat \<longrightarrow>
              cached L' w' fmt = Some (nextAddr w)
              \<and> heap w' = (heap w)(nextAddr w \<mapsto>
                              \<lparr>origin = GenericPackage, declaredRoot = genericRoot env\<rparr>))
         \<and> (cached L w fmt = None \<and> fmt \<noteq> genericFormat \<longrightarrow>
              cached L' w' fmt = fst (loadPackageStructure env fmt (L, w))
              \<and> heap w' = heap (snd (snd (loadPackageStructure env fmt (L, w)))))
         \<and> (\<forall>r. cached L w fmt = None \<and> fmt \<noteq> genericFormat
                \<and> fst (discover env fmt (map libraryDir (libraryPaths env)) ([], [])) \<noteq> []
                \<and> module env (fst (discover env fmt (map libraryDir (libraryPaths env)) ([], [])))
                    = Creates r \<longrightarrow>
                fst (resolveRoot env fmt [] (L, w)) = (if r = [] then fmt else r))"
proof -
  obtain r0 L1 w1 where rs: "rootFromStructure env fmt (L, w) = (r0, L1, w1)"
    by (metis prod_cases3)
  define root where "root = (if r0 = [] then fmt else r0)"
  have rr: "resolveRoot env fmt [] (L, w) = (root, L1, w1)"
    by (simp add: resolveRoot_def rs root_def)
  have R: "fst (resolveRoot env fmt [] (L, w)) = root"
    by (simp add: rr)
  have lst: "lst = concat (map (\<lambda>datadir. dirListing env fmt (datadir @ ''/'' @ root))
                              (standardLocations env))"
    and L': "L' = L1"
    and w': "w' = w1\<lparr>trace := trace w1 @ concat (map (\<lambda>datadir. dataProbeEvents env (datadir @ ''/'' @ root))
                                  (standardLocations env))\<rparr>"
    using call by (simp_all add: listPackages_eq rr dataDir_def)
  have c: "cached L' w' fmt = cached L1 w1 fmt"
    by (simp add: L' w' cached_trace)
  have d: "defaultPackageRoot w' p = defaultPackageRoot w1 p" for p
    by (simp add: w' defaultPackageRoot_trace)
  have h: "heap w' = heap w1"
    by (simp add: w')
  note facts = rootFromStructure_cached [OF rs]
  note resolved = rootFromStructure_resolved [OF rs]
  have one: "case cached L' w' fmt of
              Some a \<Rightarrow> root = (if defaultPackageRoot w' (Package_of a) = [] then fmt
                                else defaultPackageRoot w' (Package_of a))
            | None \<Rightarrow> root = fmt"
    using facts by (auto simp: c d root_def split: option.splits)
  have three: "\<exists>pre. trace w' =
                  pre @ concat (map (\<lambda>datadir. dataProbeEvents env (datadir @ ''/'' @ root))
                                  (standardLocations env))"
    by (simp add: w')
  have four: "\<forall>a. cached L w fmt = Some a \<longrightarrow> cached L' w' fmt = Some a \<and> heap w' = heap w"
    using resolved unfolding c h by blast
  have five: "cached L w fmt = None \<and> fmt = genericFormat \<longrightarrow>
              cached L' w' fmt = Some (nextAddr w)
              \<and> heap w' = (heap w)(nextAddr w \<mapsto>
                              \<lparr>origin = GenericPackage, declaredRoot = genericRoot env\<rparr>)"
    using resolved unfolding c h by blast
  have six: "cached L w fmt = None \<and> fmt \<noteq> genericFormat \<longrightarrow>
              cached L' w' fmt = fst (loadPackageStructure env fmt (L, w))
              \<and> heap w' = heap (snd (snd (loadPackageStructure env fmt (L, w))))"
    using resolved unfolding c h by blast
  have seven: "root = (if r = [] then fmt else r)"
    if miss: "cached L w fmt = None" and ng: "fmt \<noteq> genericFormat"
      and found: "fst (discover env fmt (map libraryDir (libraryPaths env)) ([], [])) \<noteq> []"
      and creates: "module env (fst (discover env fmt (map libraryDir (libraryPaths env)) ([], [])))
                      = Creates r" for r
  proof -
    from found creates have f: "pluginFileNameOf env fmt \<noteq> []"
      and m: "module env (pluginFileNameOf env fmt) = Creates r"
      by (simp_all add: discover_file del: map_map)
    from loadPackageStructure_created [OF f m, of L w]
    obtain a where a: "fst (loadPackageStructure env fmt (L, w)) = Some a"
      and obj: "heap (snd (snd (loadPackageStructure env fmt (L, w)))) a
                 = Some \<lparr>origin = FromModule (pluginFileNameOf env fmt), declaredRoot = r\<rparr>"
      by blast
    from six miss ng a obj have "cached L' w' fmt = Some a"
      and "heap w' a = Some \<lparr>origin = FromModule (pluginFileNameOf env fmt), declaredRoot = r\<rparr>"
      by simp_all
    with one show ?thesis
      by (simp add: defaultPackageRoot_def Package_of_def)
  qed
  from lst one three four five six seven show ?thesis
    unfolding R by blast
qed

lemma probes_exclusive:
  "(exists env (d @ kpluginindex) \<longrightarrow>
      FindPlugins d \<notin> set (probeEvents env d') \<and> DirScan d \<notin> set (dataProbeEvents env d'))
   \<and> (\<not> exists env (d @ kpluginindex) \<longrightarrow>
        IndexRead (d @ kpluginindex) \<notin> set (probeEvents env d')
        \<and> IndexRead (d @ kpluginindex) \<notin> set (dataProbeEvents env d'))"
  by (auto simp: probeEvents_def dataProbeEvents_def)

lemma discovery_exclusive:
  "(exists env (d @ kpluginindex) \<longrightarrow> FindPlugins d \<notin> set (discoveryEvents env fmt))
   \<and> (\<not> exists env (d @ kpluginindex) \<longrightarrow> IndexRead (d @ kpluginindex) \<notin> set (discoveryEvents env fmt))"
  using probes_exclusive [of env d] by (auto simp: discoveryEvents_def)

lemma listing_exclusive:
  assumes "root \<noteq> []"
      and "trace (snd (snd (listPackages env fmt root (L, w)))) = trace w @ es"
  shows "(exists env (d @ kpluginindex) \<longrightarrow> DirScan d \<notin> set es)
         \<and> (\<not> exists env (d @ kpluginindex) \<longrightarrow> IndexRead (d @ kpluginindex) \<notin> set es)"
proof -
  have "es = concat (map (\<lambda>datadir. dataProbeEvents env (dataDir root datadir)) (standardLocations env))"
    using assms by (simp add: listPackages_eq resolveRoot_given)
  then show ?thesis
    using probes_exclusive [of env d] by auto
qed

text \<open>
  C8 at the failing input: listPackages with the root \<^verbatim>\<open>plasma/plasmoids\<close>, and an index file
  in the directory \<^verbatim>\<open>/usr/share/plasma/plasmoids\<close>. Line 220 joins the directory and the
  file name without a separator, the file tested for is not the one in the directory, and
  the directory is scanned. (For the path the code does test, the two branches exclude
  each other: \<open>discovery_exclusive\<close> and \<open>listing_exclusive\<close> above.)
\<close>

theorem C8_index_in_directory_not_seen:
  "exists (env_data True) (''/usr/share/plasma/plasmoids'' @ ''/'' @ kpluginindex)
   \<and> dataDir ''plasma/plasmoids'' ''/usr/share'' = ''/usr/share/plasma/plasmoids''
   \<and> trace (snd (snd (listPackages (env_data True) ''Plasma/Applet'' ''plasma/plasmoids''
                         (defaultLoader, world0))))
       = [FileExists ''/usr/share/plasma/plasmoidskpluginindex.json'',
          DirScan ''/usr/share/plasma/plasmoids'']"
  by (simp add: listPackages_eq resolveRoot_given dataProbeEvents_def dataDir_def kpluginindex_def
        env_data_def world0_def)


lemma generic_listing:
  "listPackages (env_data False) genericFormat [] (defaultLoader, world0) =
     ([], defaultLoader\<lparr>structures := [genericFormat \<mapsto> Some 0]\<rparr>,
      \<lparr>heap = [0 \<mapsto> \<lparr>origin = GenericPackage, declaredRoot = ''kpackage/generic/''\<rparr>],
       nextAddr = 1,
       trace = [FileExists ''/usr/share/kpackage/generic/kpluginindex.json'',
                DirScan ''/usr/share/kpackage/generic/'']\<rparr>)"
  by (simp add: listPackages_def resolveRoot_def rootFromStructure_def cachedOrGeneric_def
        cached_def alloc_def defaultPackageRoot_def Package_of_def probeDataDir_def dataDir_def
        kpluginindex_def genericFormat_def env_data_def defaultLoader_def PackageLoader_new_def
        world0_def)

lemma applet_listing:
  "listPackages (env_data False) ''Plasma/Applet'' [] (defaultLoader, world0) =
     ([], defaultLoader\<lparr>structures := [''Plasma/Applet'' \<mapsto> None]\<rparr>,
      world0\<lparr>trace := [FileExists ''/usr/share/Plasma/Appletkpluginindex.json'',
                         DirScan ''/usr/share/Plasma/Applet'']\<rparr>)"
  by (simp add: listPackages_def resolveRoot_def rootFromStructure_def eval_defs
        probeDataDir_def dataDir_def env_data_def defaultLoader_def)


lemma plugin_listing:
  "listPackages (env_scan ''foo.bar'' (Creates ''foo/'')) ''foo.bar'' [] (defaultLoader, world0) =
     ([], defaultLoader\<lparr>structures := [''foo.bar'' \<mapsto> Some 0]\<rparr>,
      \<lparr>heap = [0 \<mapsto> \<lparr>origin = FromModule ''foo.so'', declaredRoot = ''foo/''\<rparr>],
       nextAddr = 1,
       trace = [FileExists ''/usr/lib/plugins/kpackage/packagestructure/kpluginindex.json'',
                FindPlugins ''/usr/lib/plugins/kpackage/packagestructure/'',
                ModuleLoad ''foo.so'',
                FileExists ''/usr/share/foo/kpluginindex.json'',
                DirScan ''/usr/share/foo/'']\<rparr>)"
  by (simp add: listPackages_def resolveRoot_def rootFromStructure_def eval_defs
        defaultPackageRoot_def Package_of_def probeDataDir_def dataDir_def env_scan_def
        defaultLoader_def)

text \<open>
  C9 on a format resolved through a plugin (the root is the one the created structure
  declares), on the generic format (the root is the one the built-in structure declares)
  and on a format no plugin carries (the root is the format).
\<close>

theorem C9_root_from_structure_or_format_witness:
  "fst (resolveRoot (env_scan ''foo.bar'' (Creates ''foo/'')) ''foo.bar'' [] (defaultLoader, world0))
     = ''foo/''
   \<and> (\<exists>pre. trace (snd (snd (listPackages (env_scan ''foo.bar'' (Creates ''foo/'')) ''foo.bar'' []
                                   (defaultLoader, world0))))
            = pre @ dataProbeEvents (env_scan ''foo.bar'' (Creates ''foo/'')) ''/usr/share/foo/'')
   \<and> (\<exists>pre. trace (snd (snd (listPackages (env_data False) genericFormat [] (defaultLoader, world0))))
            = pre @ dataProbeEvents (env_data False) ''/usr/share/kpackage/generic/'')
   \<and> (\<exists>pre. trace (snd (snd (listPackages (env_data False) ''Plasma/Applet'' [] (defaultLoader, world0))))
            = pre @ dataProbeEvents (env_data False) ''/usr/share/Plasma/Applet'')"
proof -
  have fresh: "cached defaultLoader world0 fmt = None" for fmt
    by (simp add: cached_def defaultLoader_def PackageLoader_new_def)
  have found: "fst (discover (env_scan ''foo.bar'' (Creates ''foo/'')) ''foo.bar''
                      (map libraryDir (libraryPaths (env_scan ''foo.bar'' (Creates ''foo/''))))
                      ([], [])) = ''foo.so''"
    by (simp add: eval_defs env_scan_def)
  have creates: "module (env_scan ''foo.bar'' (Creates ''foo/'')) ''foo.so'' = Creates ''foo/''"
    by (simp add: env_scan_def)
  have plocs: "standardLocations (env_scan ''foo.bar'' (Creates ''foo/'')) = [''/usr/share'']"
    by (simp add: env_scan_def)
  have locs: "standardLocations (env_data False) = [''/usr/share'']"
    by (simp add: env_data_def)
  have n0: "nextAddr world0 = 0"
    by (simp add: world0_def)
  note p = C9_root_from_structure_or_format [OF plugin_listing]
  note g = C9_root_from_structure_or_format [OF generic_listing]
  note u = C9_root_from_structure_or_format [OF applet_listing]
  from p have "cached defaultLoader world0 ''foo.bar'' = None \<and> ''foo.bar'' \<noteq> genericFormat
                \<and> fst (discover (env_scan ''foo.bar'' (Creates ''foo/'')) ''foo.bar''
                      (map libraryDir (libraryPaths (env_scan ''foo.bar'' (Creates ''foo/''))))
                      ([], [])) \<noteq> []
                \<and> module (env_scan ''foo.bar'' (Creates ''foo/''))
                     (fst (discover (env_scan ''foo.bar'' (Creates ''foo/'')) ''foo.bar''
                      (map libraryDir (libraryPaths (env_scan ''foo.bar'' (Creates ''foo/''))))
                      ([], []))) = Creates ''foo/'' \<longrightarrow>
              fst (resolveRoot (env_scan ''foo.bar'' (Creates ''foo/'')) ''foo.bar'' [] (defaultLoader, world0))
                = (if ''foo/'' = [] then ''foo.bar'' else ''foo/'')"
    by blast
  then have proot: "fst (resolveRoot (env_scan ''foo.bar'' (Creates ''foo/'')) ''foo.bar'' []
                           (defaultLoader, world0)) = ''foo/''"
    unfolding found by (simp add: fresh creates genericFormat_def)
  from p have "\<exists>pre. trace \<lparr>heap = [0 \<mapsto> \<lparr>origin = FromModule ''foo.so'', declaredRoot = ''foo/''\<rparr>],
                 nextAddr = 1,
                 trace = [FileExists ''/usr/lib/plugins/kpackage/packagestructure/kpluginindex.json'',
                          FindPlugins ''/usr/lib/plugins/kpackage/packagestructure/'',
                          ModuleLoad ''foo.so'',
                          FileExists ''/usr/share/foo/kpluginindex.json'',
                          DirScan ''/usr/share/foo/'']\<rparr> =
                pre @ concat (map (\<lambda>datadir. dataProbeEvents (env_scan ''foo.bar'' (Creates ''foo/''))
                                                 (datadir @ ''/'' @ fst (resolveRoot (env_scan ''foo.bar'' (Creates ''foo/'')) ''foo.bar'' [] (defaultLoader, world0))))
                                (standardLocations (env_scan ''foo.bar'' (Creates ''foo/''))))"
    by blast
  then have one: "\<exists>pre. trace (snd (snd (listPackages (env_scan ''foo.bar'' (Creates ''foo/'')) ''foo.bar'' []
                                   (defaultLoader, world0))))
            = pre @ dataProbeEvents (env_scan ''foo.bar'' (Creates ''foo/'')) ''/usr/share/foo/''"
    unfolding proot plocs plugin_listing by simp
  from g have "cached defaultLoader world0 genericFormat = None \<and> genericFormat = genericFormat \<longrightarrow>
              cached (defaultLoader\<lparr>structures := [genericFormat \<mapsto> Some 0]\<rparr>)
               \<lparr>heap = [0 \<mapsto> \<lparr>origin = GenericPackage, declaredRoot = ''kpackage/generic/''\<rparr>],
                nextAddr = 1,
                trace = [FileExists ''/usr/share/kpackage/generic/kpluginindex.json'',
                         DirScan ''/usr/share/kpackage/generic/'']\<rparr> genericFormat
                = Some (nextAddr world0)"
    by blast
  then have hit: "cached (defaultLoader\<lparr>structures := [genericFormat \<mapsto> Some 0]\<rparr>)
               \<lparr>heap = [0 \<mapsto> \<lparr>origin = GenericPackage, declaredRoot = ''kpackage/generic/''\<rparr>],
                nextAddr = 1,
                trace = [FileExists ''/usr/share/kpackage/generic/kpluginindex.json'',
                         DirScan ''/usr/share/kpackage/generic/'']\<rparr> genericFormat = Some 0"
    unfolding n0 by (simp add: fresh)
  have groot: "defaultPackageRoot
               \<lparr>heap = [0 \<mapsto> \<lparr>origin = GenericPackage, declaredRoot = ''kpackage/generic/''\<rparr>],
                nextAddr = 1,
                trace = [FileExists ''/usr/share/kpackage/generic/kpluginindex.json'',
                         DirScan ''/usr/share/kpackage/generic/'']\<rparr> (Package_of 0) = ''kpackage/generic/''"
    by (simp add: defaultPackageRoot_def Package_of_def)
  from g have "case cached (defaultLoader\<lparr>structures := [genericFormat \<mapsto> Some 0]\<rparr>)
               \<lparr>heap = [0 \<mapsto> \<lparr>origin = GenericPackage, declaredRoot = ''kpackage/generic/''\<rparr>],
                nextAddr = 1,
                trace = [FileExists ''/usr/share/kpackage/generic/kpluginindex.json'',
                         DirScan ''/usr/share/kpackage/generic/'']\<rparr> genericFormat of
              Some a \<Rightarrow> fst (resolveRoot (env_data False) genericFormat [] (defaultLoader, world0))
                          = (if defaultPackageRoot \<lparr>heap = [0 \<mapsto> \<lparr>origin = GenericPackage, declaredRoot = ''kpackage/generic/''\<rparr>],
                nextAddr = 1,
                trace = [FileExists ''/usr/share/kpackage/generic/kpluginindex.json'',
                         DirScan ''/usr/share/kpackage/generic/'']\<rparr> (Package_of a) = [] then genericFormat
                             else defaultPackageRoot \<lparr>heap = [0 \<mapsto> \<lparr>origin = GenericPackage, declaredRoot = ''kpackage/generic/''\<rparr>],
                nextAddr = 1,
                trace = [FileExists ''/usr/share/kpackage/generic/kpluginindex.json'',
                         DirScan ''/usr/share/kpackage/generic/'']\<rparr> (Package_of a))
            | None \<Rightarrow> fst (resolveRoot (env_data False) genericFormat [] (defaultLoader, world0)) = genericFormat"
    by blast
  then have groot2: "fst (resolveRoot (env_data False) genericFormat [] (defaultLoader, world0))
                       = ''kpackage/generic/''"
    unfolding hit option.case groot by simp
  from g have "\<exists>pre. trace \<lparr>heap = [0 \<mapsto> \<lparr>origin = GenericPackage, declaredRoot = ''kpackage/generic/''\<rparr>],
                nextAddr = 1,
                trace = [FileExists ''/usr/share/kpackage/generic/kpluginindex.json'',
                         DirScan ''/usr/share/kpackage/generic/'']\<rparr> =
                pre @ concat (map (\<lambda>datadir. dataProbeEvents (env_data False)
                                                 (datadir @ ''/'' @ fst (resolveRoot (env_data False) genericFormat [] (defaultLoader, world0))))
                                (standardLocations (env_data False)))"
    by blast
  then have two: "\<exists>pre. trace (snd (snd (listPackages (env_data False) genericFormat [] (defaultLoader, world0))))
            = pre @ dataProbeEvents (env_data False) ''/usr/share/kpackage/generic/''"
    unfolding groot2 locs generic_listing by simp
  have unresolved: "fst (loadPackageStructure (env_data False) ''Plasma/Applet'' (defaultLoader, world0)) = None"
    by (simp add: eval_defs env_data_def defaultLoader_def)
  from u have "cached defaultLoader world0 ''Plasma/Applet'' = None \<and> ''Plasma/Applet'' \<noteq> genericFormat \<longrightarrow>
              cached (defaultLoader\<lparr>structures := [''Plasma/Applet'' \<mapsto> None]\<rparr>)
                (world0\<lparr>trace := [FileExists ''/usr/share/Plasma/Appletkpluginindex.json'',
                                  DirScan ''/usr/share/Plasma/Applet'']\<rparr>) ''Plasma/Applet''
                = fst (loadPackageStructure (env_data False) ''Plasma/Applet'' (defaultLoader, world0))"
    by blast
  then have miss: "cached (defaultLoader\<lparr>structures := [''Plasma/Applet'' \<mapsto> None]\<rparr>)
                (world0\<lparr>trace := [FileExists ''/usr/share/Plasma/Appletkpluginindex.json'',
                                  DirScan ''/usr/share/Plasma/Applet'']\<rparr>) ''Plasma/Applet'' = None"
    unfolding unresolved by (simp add: fresh genericFormat_def)
  from u have "case cached (defaultLoader\<lparr>structures := [''Plasma/Applet'' \<mapsto> None]\<rparr>)
                (world0\<lparr>trace := [FileExists ''/usr/share/Plasma/Appletkpluginindex.json'',
                                  DirScan ''/usr/share/Plasma/Applet'']\<rparr>) ''Plasma/Applet'' of
              Some a \<Rightarrow> fst (resolveRoot (env_data False) ''Plasma/Applet'' [] (defaultLoader, world0))
                          = (if defaultPackageRoot (world0\<lparr>trace := [FileExists ''/usr/share/Plasma/Appletkpluginindex.json'',
                                  DirScan ''/usr/share/Plasma/Applet'']\<rparr>) (Package_of a) = [] then ''Plasma/Applet''
                             else defaultPackageRoot (world0\<lparr>trace := [FileExists ''/usr/share/Plasma/Appletkpluginindex.json'',
                                  DirScan ''/usr/share/Plasma/Applet'']\<rparr>) (Package_of a))
            | None \<Rightarrow> fst (resolveRoot (env_data False) ''Plasma/Applet'' [] (defaultLoader, world0)) = ''Plasma/Applet''"
    by blast
  then have uroot: "fst (resolveRoot (env_data False) ''Plasma/Applet'' [] (defaultLoader, world0))
                      = ''Plasma/Applet''"
    unfolding miss option.case .
  from u have "\<exists>pre. trace (world0\<lparr>trace := [FileExists ''/usr/share/Plasma/Appletkpluginindex.json'',
                                  DirScan ''/usr/share/Plasma/Applet'']\<rparr>) =
                pre @ concat (map (\<lambda>datadir. dataProbeEvents (env_data False)
                                                 (datadir @ ''/'' @ fst (resolveRoot (env_data False) ''Plasma/Applet'' [] (defaultLoader, world0))))
                                (standardLocations (env_data False)))"
    by blast
  then have three: "\<exists>pre. trace (snd (snd (listPackages (env_data False) ''Plasma/Applet'' [] (defaultLoader, world0))))
            = pre @ dataProbeEvents (env_data False) ''/usr/share/Plasma/Applet''"
    unfolding uroot locs applet_listing by simp
  from proot one two three show ?thesis by blast
qed

end
